theory Spec2Isabelle
  imports Complex_Main
begin

section \<open>Python values: exceptions, strings, floats\<close>

text \<open>
  The strategy engines of the trading bot (\<^verbatim>\<open>src/basic_bot.py\<close>,
  \<^verbatim>\<open>src/advanced/oco.py\<close>, \<^verbatim>\<open>src/advanced/grid_orders.py\<close>,
  \<^verbatim>\<open>src/advanced/twap.py\<close>) are embedded as state-passing functions. A Python
  call that may raise returns a value of \<open>exn + 'a\<close> (\<open>Inl\<close> is the raised
  exception) together with the state it leaves behind.
\<close>

datatype exn =
    ValueError string
  | ZeroDivisionError
  | KeyError string
  | ClientError string

fun str_exn :: "exn \<Rightarrow> string" where
  "str_exn (ValueError m) = m"
| "str_exn ZeroDivisionError = ''float division by zero''"
| "str_exn (KeyError k) = k"
| "str_exn (ClientError m) = m"

text \<open>\<^verbatim>\<open>str.upper()\<close> on ASCII text.\<close>

definition upper_char :: "char \<Rightarrow> char" where
  "upper_char c =
     (case map_of (zip ''abcdefghijklmnopqrstuvwxyz'' ''ABCDEFGHIJKLMNOPQRSTUVWXYZ'') c of
        Some u \<Rightarrow> u
      | None \<Rightarrow> c)"

definition upper :: "string \<Rightarrow> string" where
  "upper s = map upper_char s"

text \<open>\<^verbatim>\<open>str(n)\<close> for an integer, as the f-strings of the identifiers print it.\<close>

fun str_nat :: "nat \<Rightarrow> string" where
  "str_nat n =
     (if n < 10 then [''0123456789'' ! n]
      else str_nat (n div 10) @ [''0123456789'' ! (n mod 10)])"

declare str_nat.simps [simp del]

definition str_int :: "int \<Rightarrow> string" where
  "str_int i = (if i < 0 then ''-'' @ str_nat (nat (- i)) else str_nat (nat i))"

text \<open>\<^verbatim>\<open>int(x)\<close> of a float truncates towards zero.\<close>

definition py_int :: "real \<Rightarrow> int" where
  "py_int x = (if 0 \<le> x then \<lfloor>x\<rfloor> else \<lceil>x\<rceil>)"

text \<open>
  A Python float is modelled by the real number it denotes (a finite value; \<^verbatim>\<open>nan\<close>
  and \<^verbatim>\<open>inf\<close> are outside the model). Every float operation is the exact operation
  followed by the rounding \<open>rnd\<close> of the float format, which the engines take as a
  parameter: \<open>binary64\<close> below is the rounding of CPython's float.
\<close>

type_synonym rounding = "real \<Rightarrow> real"

definition fadd :: "rounding \<Rightarrow> real \<Rightarrow> real \<Rightarrow> real" where
  "fadd rnd a b = rnd (a + b)"

definition fsub :: "rounding \<Rightarrow> real \<Rightarrow> real \<Rightarrow> real" where
  "fsub rnd a b = rnd (a - b)"

definition fmul :: "rounding \<Rightarrow> real \<Rightarrow> real \<Rightarrow> real" where
  "fmul rnd a b = rnd (a * b)"

text \<open>\<^verbatim>\<open>a / b\<close>: true division raises \<^verbatim>\<open>ZeroDivisionError\<close> on a zero divisor.\<close>

definition truediv :: "rounding \<Rightarrow> real \<Rightarrow> real \<Rightarrow> exn + real" where
  "truediv rnd a b = (if b = 0 then Inl ZeroDivisionError else Inr (rnd (a / b)))"

definition round_half_even :: "real \<Rightarrow> int" where
  "round_half_even x =
     (let f = \<lfloor>x\<rfloor>; d = x - of_int f
      in if d < 1 / 2 then f
         else if 1 / 2 < d then f + 1
         else if even f then f else f + 1)"

text \<open>
  \<^verbatim>\<open>round(x, ndigits)\<close> of a float: the decimal with \<open>ndigits\<close> places nearest
  to the value of \<open>x\<close> (ties to the even digit), read back as a float.
\<close>

definition py_round :: "rounding \<Rightarrow> real \<Rightarrow> nat \<Rightarrow> real" where
  "py_round rnd x ndigits = rnd (of_int (round_half_even (x * 10 ^ ndigits)) / 10 ^ ndigits)"

text \<open>
  IEEE 754 binary64, round to nearest, ties to even: 53 significant bits, the exponent
  of the last bit no smaller than \<open>-1074\<close> (subnormals). Overflow to infinity is
  not modelled.
\<close>

fun ilog2 :: "nat \<Rightarrow> nat" where
  "ilog2 n = (if n < 2 then 0 else Suc (ilog2 (n div 2)))"

declare ilog2.simps [simp del]

definition floor_log2 :: "real \<Rightarrow> int" where
  "floor_log2 a =
     (if 1 \<le> a then int (ilog2 (nat \<lfloor>a\<rfloor>))
      else - int (Suc (ilog2 (nat (\<lceil>1 / a\<rceil> - 1)))))"

definition scale2 :: "real \<Rightarrow> int \<Rightarrow> real" where
  "scale2 x e = (if 0 \<le> e then x * 2 ^ nat e else x / 2 ^ nat (- e))"

definition binary64 :: rounding where
  "binary64 x =
     (if x = 0 then 0
      else let a = \<bar>x\<bar>;
               e = max (- 1074) (floor_log2 a - 52);
               m = round_half_even (scale2 a (- e))
           in sgn x * scale2 (of_int m) e)"

text \<open>The same rounding once the exponent \<open>e\<close> of the last bit is known.\<close>

definition b64_at :: "real \<Rightarrow> int \<Rightarrow> real" where
  "b64_at x e = sgn x * scale2 (of_int (round_half_even (scale2 \<bar>x\<bar> (- e)))) e"

text \<open>The float \<^verbatim>\<open>0.1\<close>: the binary64 number nearest to one tenth.\<close>

definition tenth :: real where
  "tenth = 3602879701896397 / 2 ^ 55"

section \<open>The exchange client and the bot (\<^verbatim>\<open>basic_bot.py\<close>)\<close>

text \<open>
  The exchange client (\<^verbatim>\<open>binance.Client\<close>) is external. It is a parameter of
  the model: a state \<open>'g\<close> of the exchange and, for each call the engines make, a
  function from the state and the arguments to the reply (or the exception raised) and
  the next state.
\<close>

record order_req =
  req_symbol :: string
  req_side :: string
  req_type :: string
  req_quantity :: real
  req_price :: "real option"
  req_stopPrice :: "real option"
  req_timeInForce :: "string option"

record order_resp =
  orderId :: int
  order_status :: string

record 'g client =
  futures_create_order :: "'g \<Rightarrow> order_req \<Rightarrow> (exn + order_resp) \<times> 'g"
  futures_get_order :: "'g \<Rightarrow> string \<Rightarrow> int \<Rightarrow> (exn + order_resp) \<times> 'g"
  futures_exchange_info :: "'g \<Rightarrow> (exn + string list) \<times> 'g"

text \<open>
  The world a call runs in: the exchange, and the wall clock (\<^verbatim>\<open>time.time()\<close>,
  \<^verbatim>\<open>datetime.now()\<close>), which \<^verbatim>\<open>time.sleep\<close> advances; \<open>sleeps\<close> logs the
  durations slept. \<^verbatim>\<open>time.sleep\<close> raises \<^verbatim>\<open>ValueError\<close> for a negative duration; the
  engines sleep \<^verbatim>\<open>0.1\<close> seconds, or the interval of a TWAP order, which
  \<^verbatim>\<open>execute_twap_order\<close> computes as the quotient of two positive numbers, so that
  case is not part of the model.
\<close>

record 'g world =
  gateway :: 'g
  clock :: real
  sleeps :: "real list"

definition sleep :: "real \<Rightarrow> ('g, 'z) world_scheme \<Rightarrow> ('g, 'z) world_scheme" where
  "sleep d w = w\<lparr>clock := clock w + d, sleeps := sleeps w @ [d]\<rparr>"

text \<open>
  \<^verbatim>\<open>validate_symbol\<close>: only a symbol shorter than three characters is rejected. The
  exchange is asked for its symbols, but the \<^verbatim>\<open>ValueError\<close> for an unknown symbol
  is raised inside the \<^verbatim>\<open>try\<close> whose handler catches every exception and logs a
  warning, so both replies end in \<^verbatim>\<open>return symbol\<close>.
\<close>

definition validate_symbol ::
  "'g client \<Rightarrow> string \<Rightarrow> ('g, 'z) world_scheme \<Rightarrow> (exn + string) \<times> ('g, 'z) world_scheme" where
  "validate_symbol c symbol w =
     (if length symbol < 3 then (Inl (ValueError ''Invalid symbol format''), w)
      else let symbol' = upper symbol in
        case futures_exchange_info c (gateway w) of
          (Inl e, g') \<Rightarrow> (Inr symbol', w\<lparr>gateway := g'\<rparr>)
        | (Inr valid_symbols, g') \<Rightarrow>
            (if symbol' \<notin> set valid_symbols then (Inr symbol', w\<lparr>gateway := g'\<rparr>)
             else (Inr symbol', w\<lparr>gateway := g'\<rparr>)))"

definition validate_side :: "string \<Rightarrow> exn + string" where
  "validate_side side =
     (let side' = upper side in
      if side' \<notin> set [''BUY'', ''SELL''] then Inl (ValueError ''Side must be BUY or SELL'')
      else Inr side')"

definition validate_quantity :: "real \<Rightarrow> exn + real" where
  "validate_quantity quantity =
     (if quantity \<le> 0 then Inl (ValueError ''Quantity must be > 0'') else Inr quantity)"

text \<open>
  \<^verbatim>\<open>validate_price\<close>: \<^verbatim>\<open>float(None)\<close> raises \<^verbatim>\<open>TypeError\<close>, reported
  as \<^verbatim>\<open>ValueError('Price must be numeric')\<close>.
\<close>

definition validate_price :: "real option \<Rightarrow> exn + real" where
  "validate_price price =
     (case price of
        None \<Rightarrow> Inl (ValueError ''Price must be numeric'')
      | Some p \<Rightarrow> if p \<le> 0 then Inl (ValueError ''Price must be > 0'') else Inr p)"

definition create_order ::
  "'g client \<Rightarrow> order_req \<Rightarrow> ('g, 'z) world_scheme \<Rightarrow> (exn + order_resp) \<times> ('g, 'z) world_scheme" where
  "create_order c req w =
     (case futures_create_order c (gateway w) req of (r, g') \<Rightarrow> (r, w\<lparr>gateway := g'\<rparr>))"

definition place_market_order ::
  "'g client \<Rightarrow> string \<Rightarrow> string \<Rightarrow> real \<Rightarrow> ('g, 'z) world_scheme
     \<Rightarrow> (exn + order_resp) \<times> ('g, 'z) world_scheme" where
  "place_market_order c symbol side quantity w =
     (case validate_symbol c symbol w of
        (Inl e, w1) \<Rightarrow> (Inl e, w1)
      | (Inr symbol', w1) \<Rightarrow>
     (case validate_side side of
        Inl e \<Rightarrow> (Inl e, w1)
      | Inr side' \<Rightarrow>
     (case validate_quantity quantity of
        Inl e \<Rightarrow> (Inl e, w1)
      | Inr quantity' \<Rightarrow>
          create_order c
            \<lparr>req_symbol = symbol', req_side = side', req_type = ''MARKET'',
             req_quantity = quantity', req_price = None, req_stopPrice = None,
             req_timeInForce = None\<rparr> w1)))"

definition place_limit_order ::
  "'g client \<Rightarrow> string \<Rightarrow> string \<Rightarrow> real \<Rightarrow> real option \<Rightarrow> string \<Rightarrow> ('g, 'z) world_scheme
     \<Rightarrow> (exn + order_resp) \<times> ('g, 'z) world_scheme" where
  "place_limit_order c symbol side quantity price time_in_force w =
     (case validate_symbol c symbol w of
        (Inl e, w1) \<Rightarrow> (Inl e, w1)
      | (Inr symbol', w1) \<Rightarrow>
     (case validate_side side of
        Inl e \<Rightarrow> (Inl e, w1)
      | Inr side' \<Rightarrow>
     (case validate_quantity quantity of
        Inl e \<Rightarrow> (Inl e, w1)
      | Inr quantity' \<Rightarrow>
     (case validate_price price of
        Inl e \<Rightarrow> (Inl e, w1)
      | Inr price' \<Rightarrow>
          if time_in_force \<notin> set [''GTC'', ''IOC'', ''FOK'']
          then (Inl (ValueError ''time_in_force must be GTC, IOC, or FOK''), w1)
          else create_order c
            \<lparr>req_symbol = symbol', req_side = side', req_type = ''LIMIT'',
             req_quantity = quantity', req_price = Some price', req_stopPrice = None,
             req_timeInForce = Some time_in_force\<rparr> w1))))"

definition get_order_status ::
  "'g client \<Rightarrow> string \<Rightarrow> int \<Rightarrow> ('g, 'z) world_scheme \<Rightarrow> (exn + order_resp) \<times> ('g, 'z) world_scheme" where
  "get_order_status c symbol order_id w =
     (case futures_get_order c (gateway w) symbol order_id of (r, g') \<Rightarrow> (r, w\<lparr>gateway := g'\<rparr>))"

section \<open>The registries of the three engines\<close>

record oco_data =
  oco_symbol :: string
  oco_side :: string
  take_profit_order :: order_resp
  stop_loss_order :: order_resp
  oco_status :: string

record grid_level =
  lv_level :: int
  lv_price :: real
  lv_side :: string
  lv_quantity :: real

record order_info =
  oi_grid_level :: int
  oi_price :: real
  oi_side :: string
  oi_quantity :: real
  oi_order :: order_resp
  oi_timestamp :: real

record failed_info =
  fi_grid_level :: int
  fi_price :: real
  fi_side :: string
  fi_quantity :: real
  fi_error :: string
  fi_timestamp :: real

record grid_data =
  gr_symbol :: string
  gr_side :: string
  gr_quantity_per_order :: real
  gr_lower_price :: real
  gr_upper_price :: real
  gr_num_orders :: int
  gr_grid_type :: string
  gr_price_step :: real
  grid_levels :: "grid_level list"
  gr_status :: string
  placed_orders :: "order_info list"
  filled_orders :: "order_info list"
  created_time :: real

record executed_slice =
  ex_slice_num :: int
  ex_quantity :: real
  ex_order :: order_resp
  ex_timestamp :: real

record failed_slice =
  fs_slice_num :: int
  fs_quantity :: real
  fs_error :: string
  fs_timestamp :: real

record twap_data =
  tw_symbol :: string
  tw_side :: string
  total_quantity :: real
  remaining_quantity :: real
  num_slices :: int
  slice_quantity :: real
  slice_interval :: real
  tw_order_type :: string
  tw_price :: "real option"
  tw_time_in_force :: string
  start_time :: real
  end_time :: real
  tw_status :: string
  executed_orders :: "executed_slice list"
  failed_orders :: "failed_slice list"

text \<open>
  One bot with its three engines (\<^verbatim>\<open>TradingBot\<close> in \<^verbatim>\<open>main.py\<close>): the world,
  and the dictionaries \<^verbatim>\<open>active_grids\<close>, \<^verbatim>\<open>active_oco_orders\<close>,
  \<^verbatim>\<open>monitoring_threads\<close> and \<^verbatim>\<open>active_twap_orders\<close>. Of a monitoring thread
  only its registration is modelled (the key under which the started thread is stored).
\<close>

record 'g system = "'g world" +
  active_grids :: "string \<rightharpoonup> grid_data"
  active_oco_orders :: "string \<rightharpoonup> oco_data"
  monitoring_threads :: "string set"
  active_twap_orders :: "string \<rightharpoonup> twap_data"

section \<open>OCO orders (\<^verbatim>\<open>advanced/oco.py\<close>)\<close>

record oco_result =
  or_oco_id :: string
  or_take_profit_order :: order_resp
  or_stop_loss_order :: order_resp
  or_status :: string

definition start_oco_monitoring :: "string \<Rightarrow> 'g system \<Rightarrow> 'g system" where
  "start_oco_monitoring oco_id s = s\<lparr>monitoring_threads := insert oco_id (monitoring_threads s)\<rparr>"

text \<open>The two orders of an OCO pair, as \<^verbatim>\<open>place_oco_order\<close> sends them.\<close>

definition take_profit_req :: "string \<Rightarrow> string \<Rightarrow> real \<Rightarrow> real \<Rightarrow> string \<Rightarrow> order_req" where
  "take_profit_req symbol side quantity take_profit_price time_in_force =
     \<lparr>req_symbol = symbol, req_side = side, req_type = ''LIMIT'', req_quantity = quantity,
      req_price = Some take_profit_price, req_stopPrice = None,
      req_timeInForce = Some time_in_force\<rparr>"

definition stop_loss_req :: "string \<Rightarrow> string \<Rightarrow> real \<Rightarrow> real \<Rightarrow> order_req" where
  "stop_loss_req symbol side quantity stop_loss_price =
     \<lparr>req_symbol = symbol, req_side = side, req_type = ''STOP_MARKET'', req_quantity = quantity,
      req_price = None, req_stopPrice = Some stop_loss_price, req_timeInForce = None\<rparr>"

text \<open>
  \<^verbatim>\<open>place_oco_order\<close>. The \<^verbatim>\<open>try\<close> around the two placements logs and re-raises:
  an exception of either \<^verbatim>\<open>futures_create_order\<close> call leaves the function at once.
\<close>

definition place_oco_order ::
  "'g client \<Rightarrow> string \<Rightarrow> string \<Rightarrow> real \<Rightarrow> real \<Rightarrow> real \<Rightarrow> string \<Rightarrow> 'g system
     \<Rightarrow> (exn + oco_result) \<times> 'g system" where
  "place_oco_order c symbol side quantity take_profit_price stop_loss_price time_in_force s =
     (case validate_symbol c symbol s of
        (Inl e, s1) \<Rightarrow> (Inl e, s1)
      | (Inr symbol', s1) \<Rightarrow>
     (case validate_side side of
        Inl e \<Rightarrow> (Inl e, s1)
      | Inr side' \<Rightarrow>
     (case validate_quantity quantity of
        Inl e \<Rightarrow> (Inl e, s1)
      | Inr quantity' \<Rightarrow>
     (case validate_price (Some take_profit_price) of
        Inl e \<Rightarrow> (Inl e, s1)
      | Inr tp \<Rightarrow>
     (case validate_price (Some stop_loss_price) of
        Inl e \<Rightarrow> (Inl e, s1)
      | Inr sl \<Rightarrow>
          if time_in_force \<notin> set [''GTC'', ''IOC'', ''FOK'']
          then (Inl (ValueError ''time_in_force must be GTC, IOC, or FOK''), s1)
          else if side' = ''BUY'' \<and> tp \<le> sl
          then (Inl (ValueError ''For BUY orders: take_profit_price must be > stop_loss_price''), s1)
          else if side' \<noteq> ''BUY'' \<and> sl \<le> tp
          then (Inl (ValueError ''For SELL orders: take_profit_price must be < stop_loss_price''), s1)
          else
     (case create_order c (take_profit_req symbol' side' quantity' tp time_in_force) s1 of
        (Inl e, s2) \<Rightarrow> (Inl e, s2)
      | (Inr tp_order, s2) \<Rightarrow>
     (case create_order c (stop_loss_req symbol' side' quantity' sl) s2 of
        (Inl e, s3) \<Rightarrow> (Inl e, s3)
      | (Inr sl_order, s3) \<Rightarrow>
          let oco_id = symbol' @ ''_'' @ str_int (py_int (clock s3));
              s4 = s3\<lparr>active_oco_orders := (active_oco_orders s3)(oco_id \<mapsto>
                      \<lparr>oco_symbol = symbol', oco_side = side', take_profit_order = tp_order,
                       stop_loss_order = sl_order, oco_status = ''ACTIVE''\<rparr>)\<rparr>;
              s5 = start_oco_monitoring oco_id s4
          in (Inr \<lparr>or_oco_id = oco_id, or_take_profit_order = tp_order,
                    or_stop_loss_order = sl_order, or_status = ''PLACED''\<rparr>, s5))))))))"

section \<open>Grid orders (\<^verbatim>\<open>advanced/grid_orders.py\<close>)\<close>

record grid_result =
  gres_grid_id :: string
  gres_symbol :: string
  gres_side :: string
  gres_num_orders :: int
  gres_grid_levels :: "grid_level list"
  gres_status :: string

text \<open>
  The step between two levels when \<^verbatim>\<open>price_step\<close> is \<^verbatim>\<open>None\<close>; \<^verbatim>\<open>math.log\<close> is
  taken as the rounded logarithm. A given step goes through \<^verbatim>\<open>validate_price\<close>.
\<close>

definition grid_price_step ::
  "rounding \<Rightarrow> string \<Rightarrow> real \<Rightarrow> real \<Rightarrow> int \<Rightarrow> real option \<Rightarrow> exn + real" where
  "grid_price_step rnd grid_type lower_price upper_price num_orders price_step =
     (case price_step of
        None \<Rightarrow>
          if grid_type = ''LINEAR''
          then truediv rnd (fsub rnd upper_price lower_price) (of_int (num_orders - 1))
          else truediv rnd (fsub rnd (rnd (ln upper_price)) (rnd (ln lower_price)))
                 (of_int (num_orders - 1))
      | Some p \<Rightarrow> validate_price (Some p))"

text \<open>The body of the loop \<^verbatim>\<open>for i in range(num_orders)\<close>: level \<open>i\<close>.\<close>

definition grid_level_at ::
  "rounding \<Rightarrow> string \<Rightarrow> string \<Rightarrow> real \<Rightarrow> real \<Rightarrow> int \<Rightarrow> real \<Rightarrow> nat \<Rightarrow> grid_level" where
  "grid_level_at rnd grid_type side quantity_per_order lower_price num_orders price_step i =
     (let price =
            (if grid_type = ''LINEAR''
             then fadd rnd lower_price (fmul rnd (real i) price_step)
             else fmul rnd lower_price (rnd (exp (fmul rnd (real i) price_step))));
          order_side =
            (if side = ''BUY''
             then (if int i < num_orders div 2 then ''BUY'' else ''SELL'')
             else (if int i < num_orders div 2 then ''SELL'' else ''BUY''))
      in \<lparr>lv_level = int i + 1, lv_price = py_round rnd price 8, lv_side = order_side,
          lv_quantity = quantity_per_order\<rparr>)"

definition create_grid_strategy ::
  "rounding \<Rightarrow> 'g client \<Rightarrow> string \<Rightarrow> string \<Rightarrow> real \<Rightarrow> real \<Rightarrow> real \<Rightarrow> int \<Rightarrow> string
     \<Rightarrow> real option \<Rightarrow> 'g system \<Rightarrow> (exn + grid_result) \<times> 'g system" where
  "create_grid_strategy rnd c symbol side quantity_per_order lower_price upper_price num_orders
       grid_type price_step s =
     (case validate_symbol c symbol s of
        (Inl e, s1) \<Rightarrow> (Inl e, s1)
      | (Inr symbol', s1) \<Rightarrow>
     (case validate_side side of
        Inl e \<Rightarrow> (Inl e, s1)
      | Inr side' \<Rightarrow>
     (case validate_quantity quantity_per_order of
        Inl e \<Rightarrow> (Inl e, s1)
      | Inr qty \<Rightarrow>
     (case validate_price (Some lower_price) of
        Inl e \<Rightarrow> (Inl e, s1)
      | Inr lower' \<Rightarrow>
     (case validate_price (Some upper_price) of
        Inl e \<Rightarrow> (Inl e, s1)
      | Inr upper' \<Rightarrow>
          if upper' \<le> lower' then (Inl (ValueError ''lower_price must be < upper_price''), s1)
          else if num_orders \<le> 0 then (Inl (ValueError ''num_orders must be > 0''), s1)
          else if grid_type \<notin> set [''LINEAR'', ''LOGARITHMIC'']
          then (Inl (ValueError ''grid_type must be LINEAR or LOGARITHMIC''), s1)
          else
     (case grid_price_step rnd grid_type lower' upper' num_orders price_step of
        Inl e \<Rightarrow> (Inl e, s1)
      | Inr step \<Rightarrow>
          let levels = map (grid_level_at rnd grid_type side' qty lower' num_orders step)
                         [0..<nat num_orders];
              grid_id = ''GRID_'' @ symbol' @ ''_'' @ str_int (py_int (clock s1));
              s2 = s1\<lparr>active_grids := (active_grids s1)(grid_id \<mapsto>
                      \<lparr>gr_symbol = symbol', gr_side = side', gr_quantity_per_order = qty,
                       gr_lower_price = lower', gr_upper_price = upper',
                       gr_num_orders = num_orders, gr_grid_type = grid_type,
                       gr_price_step = step, grid_levels = levels,
                       gr_status = ''CONFIGURED'', placed_orders = [], filled_orders = [],
                       created_time = clock s1\<rparr>)\<rparr>
          in (Inr \<lparr>gres_grid_id = grid_id, gres_symbol = symbol', gres_side = side',
                    gres_num_orders = num_orders, gres_grid_levels = levels,
                    gres_status = ''CONFIGURED''\<rparr>, s2)))))))"

record execution_report =
  er_grid_id :: string
  er_status :: string
  er_placed_orders :: nat
  er_failed_orders :: nat
  er_orders :: "order_info list"

text \<open>
  The placement loop of \<^verbatim>\<open>execute_grid_orders\<close>, over the levels in order. The
  accumulator holds the grid record (whose \<^verbatim>\<open>placed_orders\<close> list is appended to),
  the local lists \<^verbatim>\<open>placed_orders\<close> and \<^verbatim>\<open>failed_orders\<close>, and the world. Every
  exception of a placement is caught inside the loop.
\<close>

fun place_levels ::
  "'g client \<Rightarrow> grid_level list
     \<Rightarrow> grid_data \<times> order_info list \<times> failed_info list \<times> ('g, 'z) world_scheme
     \<Rightarrow> grid_data \<times> order_info list \<times> failed_info list \<times> ('g, 'z) world_scheme" where
  "place_levels c [] acc = acc"
| "place_levels c (lv # rest) (gd, placed, failed, w) =
     (case place_limit_order c (gr_symbol gd) (lv_side lv) (lv_quantity lv) (Some (lv_price lv))
             ''GTC'' w of
        (Inr order, w1) \<Rightarrow>
          let info = \<lparr>oi_grid_level = lv_level lv, oi_price = lv_price lv, oi_side = lv_side lv,
                      oi_quantity = lv_quantity lv, oi_order = order, oi_timestamp = clock w1\<rparr>
          in place_levels c rest
               (gd\<lparr>placed_orders := placed_orders gd @ [info]\<rparr>, placed @ [info], failed,
                sleep tenth w1)
      | (Inl e, w1) \<Rightarrow>
          place_levels c rest
            (gd, placed,
             failed @ [\<lparr>fi_grid_level = lv_level lv, fi_price = lv_price lv,
                        fi_side = lv_side lv, fi_quantity = lv_quantity lv,
                        fi_error = str_exn e, fi_timestamp = clock w1\<rparr>],
             w1))"

definition execute_grid_orders ::
  "'g client \<Rightarrow> string \<Rightarrow> 'g system \<Rightarrow> (exn + execution_report) \<times> 'g system" where
  "execute_grid_orders c grid_id s =
     (case active_grids s grid_id of
        None \<Rightarrow> (Inl (ValueError (''Grid '' @ grid_id @ '' not found'')), s)
      | Some grid_data \<Rightarrow>
          (case place_levels c (grid_levels grid_data)
                  (grid_data\<lparr>gr_status := ''EXECUTING''\<rparr>, [], [], s) of
             (gd, placed, failed, s1) \<Rightarrow>
               (Inr \<lparr>er_grid_id = grid_id, er_status = ''ACTIVE'',
                      er_placed_orders = length placed, er_failed_orders = length failed,
                      er_orders = placed\<rparr>,
                s1\<lparr>active_grids := (active_grids s1)(grid_id \<mapsto> gd\<lparr>gr_status := ''ACTIVE''\<rparr>)\<rparr>)))"

record grid_status =
  gs_grid_id :: string
  gs_symbol :: string
  gs_side :: string
  gs_status :: string
  gs_num_orders :: int
  gs_active_orders :: nat
  gs_filled_orders :: nat
  gs_canceled_orders :: nat
  gs_created_time :: real
  gs_grid_levels :: "grid_level list"

text \<open>
  The polling loop of \<^verbatim>\<open>get_grid_status\<close>, over \<^verbatim>\<open>placed_orders\<close>. The
  accumulator holds \<^verbatim>\<open>filled_orders\<close> of the grid, the three counters and the world.
  An exception of the status query is logged and the order is skipped.
\<close>

fun poll_orders ::
  "'g client \<Rightarrow> string \<Rightarrow> order_info list
     \<Rightarrow> order_info list \<times> nat \<times> nat \<times> nat \<times> ('g, 'z) world_scheme
     \<Rightarrow> order_info list \<times> nat \<times> nat \<times> nat \<times> ('g, 'z) world_scheme" where
  "poll_orders c symbol [] acc = acc"
| "poll_orders c symbol (info # rest) (filled, n_active, n_filled, n_canceled, w) =
     (case get_order_status c symbol (orderId (oi_order info)) w of
        (Inr st, w1) \<Rightarrow>
          if order_status st = ''FILLED''
          then poll_orders c symbol rest
                 (if info \<notin> set filled then filled @ [info] else filled,
                  n_active, n_filled + 1, n_canceled, w1)
          else if order_status st \<in> set [''CANCELED'', ''EXPIRED'']
          then poll_orders c symbol rest (filled, n_active, n_filled, n_canceled + 1, w1)
          else poll_orders c symbol rest (filled, n_active + 1, n_filled, n_canceled, w1)
      | (Inl e, w1) \<Rightarrow>
          poll_orders c symbol rest (filled, n_active, n_filled, n_canceled, w1))"

definition get_grid_status ::
  "'g client \<Rightarrow> string \<Rightarrow> 'g system \<Rightarrow> (exn + grid_status) \<times> 'g system" where
  "get_grid_status c grid_id s =
     (case active_grids s grid_id of
        None \<Rightarrow> (Inl (ValueError (''Grid '' @ grid_id @ '' not found'')), s)
      | Some grid_data \<Rightarrow>
          (case poll_orders c (gr_symbol grid_data) (placed_orders grid_data)
                  (filled_orders grid_data, 0, 0, 0, s) of
             (filled, n_active, n_filled, n_canceled, s1) \<Rightarrow>
               (Inr \<lparr>gs_grid_id = grid_id, gs_symbol = gr_symbol grid_data,
                      gs_side = gr_side grid_data, gs_status = gr_status grid_data,
                      gs_num_orders = gr_num_orders grid_data, gs_active_orders = n_active,
                      gs_filled_orders = n_filled, gs_canceled_orders = n_canceled,
                      gs_created_time = created_time grid_data,
                      gs_grid_levels = grid_levels grid_data\<rparr>,
                s1\<lparr>active_grids := (active_grids s1)(grid_id \<mapsto>
                       grid_data\<lparr>filled_orders := filled\<rparr>)\<rparr>)))"

section \<open>TWAP (\<^verbatim>\<open>advanced/twap.py\<close>)\<close>

record twap_result =
  tr_twap_id :: string
  tr_symbol :: string
  tr_side :: string
  tr_total_quantity :: real
  tr_num_slices :: int
  tr_duration_minutes :: int
  tr_status :: string

record cancel_result =
  cr_twap_id :: string
  cr_status :: string
  cr_executed_slices :: nat
  cr_failed_slices :: nat
  cr_remaining_quantity :: real

text \<open>
  \<^verbatim>\<open>cancel_twap_order\<close> writes two fields of the dictionary of the order, the same
  object the slicing loop holds.
\<close>

definition mark_canceled :: "real \<Rightarrow> twap_data \<Rightarrow> twap_data" where
  "mark_canceled now twap = twap\<lparr>tw_status := ''CANCELED'', end_time := now\<rparr>"

definition cancel_twap_order :: "string \<Rightarrow> 'g system \<Rightarrow> (exn + cancel_result) \<times> 'g system" where
  "cancel_twap_order twap_id s =
     (case active_twap_orders s twap_id of
        None \<Rightarrow> (Inl (ValueError (''TWAP order '' @ twap_id @ '' not found'')), s)
      | Some twap \<Rightarrow>
          let twap' = mark_canceled (clock s) twap
          in (Inr \<lparr>cr_twap_id = twap_id, cr_status = ''CANCELED'',
                    cr_executed_slices = length (executed_orders twap'),
                    cr_failed_slices = length (failed_orders twap'),
                    cr_remaining_quantity = remaining_quantity twap'\<rparr>,
              s\<lparr>active_twap_orders := (active_twap_orders s)(twap_id \<mapsto> twap')\<rparr>))"

text \<open>The quantity of slice \<open>slice_num\<close> (counted from 0): the last slice takes what remains.\<close>

definition slice_qty :: "twap_data \<Rightarrow> nat \<Rightarrow> real" where
  "slice_qty twap slice_num =
     (if int slice_num = num_slices twap - 1 then remaining_quantity twap
      else slice_quantity twap)"

text \<open>The placement of one slice: a market order, or else a limit order.\<close>

definition place_slice ::
  "'g client \<Rightarrow> twap_data \<Rightarrow> real \<Rightarrow> ('g, 'z) world_scheme
     \<Rightarrow> (exn + order_resp) \<times> ('g, 'z) world_scheme" where
  "place_slice c twap qty w =
     (if tw_order_type twap = ''MARKET''
      then place_market_order c (tw_symbol twap) (tw_side twap) qty w
      else place_limit_order c (tw_symbol twap) (tw_side twap) qty (tw_price twap)
             (tw_time_in_force twap) w)"

text \<open>The wait after a slice that is not the last one.\<close>

definition wait_next :: "twap_data \<Rightarrow> nat \<Rightarrow> ('g, 'z) world_scheme \<Rightarrow> ('g, 'z) world_scheme" where
  "wait_next twap slice_num w =
     (if int slice_num < num_slices twap - 1 then sleep (slice_interval twap) w else w)"

text \<open>
  One iteration of \<^verbatim>\<open>for slice_num in range(num_slices)\<close>. The loop runs on the
  dictionary of the order and the world; \<open>Broken\<close> is the state a \<^verbatim>\<open>break\<close> leaves.

  \<^verbatim>\<open>execute_twap_order\<close> blocks its caller until the loop is over, so a
  \<^verbatim>\<open>cancel_twap_order\<close> call can only come from another thread. \<open>ext slice_num\<close>
  says that such a call has landed since the previous status check (during the
  previous placement or wait, or before the loop for slice 0): its two writes are then
  in place when iteration \<open>slice_num\<close> reads the status. The body of the loop writes
  neither of the two fields. The time the call stamps lies between the two checks; the
  model stamps the time of the check, and the lines after the loop overwrite it.
\<close>

datatype 'a loop = Running 'a | Broken 'a

fun loop_state :: "'a loop \<Rightarrow> 'a" where
  "loop_state (Running x) = x"
| "loop_state (Broken x) = x"

definition twap_slice ::
  "rounding \<Rightarrow> 'g client \<Rightarrow> (nat \<Rightarrow> bool) \<Rightarrow> nat \<Rightarrow> twap_data \<times> ('g, 'z) world_scheme
     \<Rightarrow> (twap_data \<times> ('g, 'z) world_scheme) loop" where
  "twap_slice rnd c ext slice_num st =
     (case st of (twap0, w) \<Rightarrow>
        let twap = (if ext slice_num then mark_canceled (clock w) twap0 else twap0) in
        if tw_status twap \<noteq> ''ACTIVE'' then Broken (twap, w)
        else
          let qty = slice_qty twap slice_num in
          if qty \<le> 0 then Broken (twap, w)
          else
            (case place_slice c twap qty w of
               (Inr order, w1) \<Rightarrow>
                 let twap1 = twap\<lparr>executed_orders := executed_orders twap @
                                 [\<lparr>ex_slice_num = int slice_num + 1, ex_quantity = qty,
                                   ex_order = order, ex_timestamp = clock w1\<rparr>]\<rparr>;
                     twap2 = twap1\<lparr>remaining_quantity := fsub rnd (remaining_quantity twap1) qty\<rparr>
                 in Running (twap2, wait_next twap2 slice_num w1)
             | (Inl e, w1) \<Rightarrow>
                 let twap1 = twap\<lparr>failed_orders := failed_orders twap @
                                 [\<lparr>fs_slice_num = int slice_num + 1, fs_quantity = qty,
                                   fs_error = str_exn e, fs_timestamp = clock w1\<rparr>]\<rparr>
                 in Running (twap1, wait_next twap1 slice_num w1)))"

text \<open>The state after the first \<open>k\<close> iterations of the loop.\<close>

primrec twap_iter ::
  "rounding \<Rightarrow> 'g client \<Rightarrow> (nat \<Rightarrow> bool) \<Rightarrow> nat \<Rightarrow> twap_data \<times> ('g, 'z) world_scheme
     \<Rightarrow> (twap_data \<times> ('g, 'z) world_scheme) loop" where
  "twap_iter rnd c ext 0 st = Running st"
| "twap_iter rnd c ext (Suc k) st =
     (case twap_iter rnd c ext k st of
        Running st' \<Rightarrow> twap_slice rnd c ext k st'
      | Broken st' \<Rightarrow> Broken st')"

text \<open>
  \<^verbatim>\<open>_execute_twap_slices\<close>: \<^verbatim>\<open>range(num_slices)\<close> is evaluated once, the loop runs,
  and the two lines after the loop mark the order.
\<close>

definition execute_twap_slices ::
  "rounding \<Rightarrow> 'g client \<Rightarrow> (nat \<Rightarrow> bool) \<Rightarrow> string \<Rightarrow> 'g system \<Rightarrow> (exn + unit) \<times> 'g system" where
  "execute_twap_slices rnd c ext twap_id s =
     (case active_twap_orders s twap_id of
        None \<Rightarrow> (Inl (KeyError twap_id), s)
      | Some twap_data \<Rightarrow>
          (case loop_state (twap_iter rnd c ext (nat (num_slices twap_data)) (twap_data, s)) of
             (twap, s1) \<Rightarrow>
               (Inr (),
                s1\<lparr>active_twap_orders := (active_twap_orders s1)(twap_id \<mapsto>
                       twap\<lparr>tw_status := ''COMPLETED'', end_time := clock s1\<rparr>)\<rparr>)))"

definition execute_twap_order ::
  "rounding \<Rightarrow> 'g client \<Rightarrow> (nat \<Rightarrow> bool) \<Rightarrow> string \<Rightarrow> string \<Rightarrow> real \<Rightarrow> int \<Rightarrow> int option
     \<Rightarrow> string \<Rightarrow> real option \<Rightarrow> string \<Rightarrow> 'g system \<Rightarrow> (exn + twap_result) \<times> 'g system" where
  "execute_twap_order rnd c ext symbol side quantity duration_minutes n_slices order_type price
       time_in_force s =
     (case validate_symbol c symbol s of
        (Inl e, s1) \<Rightarrow> (Inl e, s1)
      | (Inr symbol', s1) \<Rightarrow>
     (case validate_side side of
        Inl e \<Rightarrow> (Inl e, s1)
      | Inr side' \<Rightarrow>
     (case validate_quantity quantity of
        Inl e \<Rightarrow> (Inl e, s1)
      | Inr total' \<Rightarrow>
          if duration_minutes \<le> 0 then (Inl (ValueError ''Duration must be > 0 minutes''), s1)
          else if order_type \<notin> set [''MARKET'', ''LIMIT'']
          then (Inl (ValueError ''order_type must be MARKET or LIMIT''), s1)
          else if order_type = ''LIMIT'' \<and> price = None
          then (Inl (ValueError ''Price is required for LIMIT orders''), s1)
          else
     (case (if order_type = ''LIMIT'' then map_sum id Some (validate_price price) else Inr price) of
        Inl e \<Rightarrow> (Inl e, s1)
      | Inr price' \<Rightarrow>
          let n = (case n_slices of None \<Rightarrow> max 1 (min duration_minutes 60) | Some k \<Rightarrow> k) in
          if n \<le> 0 then (Inl (ValueError ''Number of slices must be > 0''), s1)
          else
     (case truediv rnd total' (of_int n) of
        Inl e \<Rightarrow> (Inl e, s1)
      | Inr slice_q \<Rightarrow>
     (case truediv rnd (of_int (duration_minutes * 60)) (of_int n) of
        Inl e \<Rightarrow> (Inl e, s1)
      | Inr interval \<Rightarrow>
          let twap_id = ''TWAP_'' @ symbol' @ ''_'' @ str_int (py_int (clock s1));
              s2 = s1\<lparr>active_twap_orders := (active_twap_orders s1)(twap_id \<mapsto>
                      \<lparr>tw_symbol = symbol', tw_side = side', total_quantity = total',
                       remaining_quantity = total', num_slices = n, slice_quantity = slice_q,
                       slice_interval = interval, tw_order_type = order_type,
                       tw_price = price', tw_time_in_force = time_in_force,
                       start_time = clock s1,
                       end_time = clock s1 + 60 * of_int duration_minutes,
                       tw_status = ''ACTIVE'', executed_orders = [], failed_orders = []\<rparr>)\<rparr>
          in (case execute_twap_slices rnd c ext twap_id s2 of
                (Inl e, s3) \<Rightarrow> (Inl e, s3)
              | (Inr u, s3) \<Rightarrow>
                  (Inr \<lparr>tr_twap_id = twap_id, tr_symbol = symbol', tr_side = side',
                         tr_total_quantity = total', tr_num_slices = n,
                         tr_duration_minutes = duration_minutes, tr_status = ''STARTED''\<rparr>,
                   s3))))))))"

section \<open>A simulated exchange\<close>

text \<open>
  A test double of the exchange, for running the engines on concrete inputs. It logs the
  calls that place an order or fetch the symbol list, accepts or rejects successive
  placements as \<open>sim_script\<close> says (an exhausted script accepts), keeps the accepted
  orders, and reports the orders listed in \<open>sim_filled\<close> as filled. A status query
  leaves the exchange as it is.
\<close>

record sim =
  sim_log :: "string list"
  sim_script :: "bool list"
  sim_orders :: "order_req list"
  sim_filled :: "int list"

definition sim_create_order :: "sim \<Rightarrow> order_req \<Rightarrow> (exn + order_resp) \<times> sim" where
  "sim_create_order g req =
     (if sim_script g \<noteq> [] \<and> \<not> hd (sim_script g)
      then (Inl (ClientError ''order rejected''),
            g\<lparr>sim_log := sim_log g @ [''futures_create_order''], sim_script := tl (sim_script g)\<rparr>)
      else (Inr \<lparr>orderId = int (length (sim_orders g)) + 1, order_status = ''NEW''\<rparr>,
            g\<lparr>sim_log := sim_log g @ [''futures_create_order''], sim_script := tl (sim_script g),
              sim_orders := sim_orders g @ [req]\<rparr>))"

definition sim_get_order :: "sim \<Rightarrow> string \<Rightarrow> int \<Rightarrow> (exn + order_resp) \<times> sim" where
  "sim_get_order g symbol order_id =
     (Inr \<lparr>orderId = order_id,
            order_status = (if order_id \<in> set (sim_filled g) then ''FILLED'' else ''NEW'')\<rparr>, g)"

definition sim_exchange_info :: "sim \<Rightarrow> (exn + string list) \<times> sim" where
  "sim_exchange_info g =
     (Inr [''BTCUSDT'', ''ETHUSDT''], g\<lparr>sim_log := sim_log g @ [''futures_exchange_info'']\<rparr>)"

definition sim_client :: "sim client" where
  "sim_client =
     \<lparr>futures_create_order = sim_create_order, futures_get_order = sim_get_order,
      futures_exchange_info = sim_exchange_info\<rparr>"

text \<open>A bot with empty registries at clock reading \<open>now\<close>.\<close>

definition sim_system :: "bool list \<Rightarrow> int list \<Rightarrow> real \<Rightarrow> sim system" where
  "sim_system script filled now =
     \<lparr>gateway = \<lparr>sim_log = [], sim_script = script, sim_orders = [], sim_filled = filled\<rparr>,
      clock = now, sleeps = [], active_grids = Map.empty, active_oco_orders = Map.empty,
      monitoring_threads = {}, active_twap_orders = Map.empty\<rparr>"

text \<open>
  A bot with one registered grid of two levels, both placed earlier (orders 1 and 2 of
  the exchange), whose status is CANCELED.
\<close>

definition sim_grid :: grid_data where
  "sim_grid =
     \<lparr>gr_symbol = ''BTCUSDT'', gr_side = ''BUY'', gr_quantity_per_order = 1,
      gr_lower_price = 95, gr_upper_price = 105, gr_num_orders = 2, gr_grid_type = ''LINEAR'',
      gr_price_step = 10,
      grid_levels =
        [\<lparr>lv_level = 1, lv_price = 95, lv_side = ''BUY'', lv_quantity = 1\<rparr>,
         \<lparr>lv_level = 2, lv_price = 105, lv_side = ''SELL'', lv_quantity = 1\<rparr>],
      gr_status = ''CANCELED'',
      placed_orders =
        [\<lparr>oi_grid_level = 1, oi_price = 95, oi_side = ''BUY'', oi_quantity = 1,
          oi_order = \<lparr>orderId = 1, order_status = ''NEW''\<rparr>, oi_timestamp = 1700000000\<rparr>,
         \<lparr>oi_grid_level = 2, oi_price = 105, oi_side = ''SELL'', oi_quantity = 1,
          oi_order = \<lparr>orderId = 2, order_status = ''NEW''\<rparr>, oi_timestamp = 1700000000\<rparr>],
      filled_orders = [], created_time = 1700000000\<rparr>"

definition sim_grid_system :: "bool list \<Rightarrow> int list \<Rightarrow> sim system" where
  "sim_grid_system script filled =
     \<lparr>gateway =
        \<lparr>sim_log = [], sim_script = script,
         sim_orders =
           [\<lparr>req_symbol = ''BTCUSDT'', req_side = ''BUY'', req_type = ''LIMIT'', req_quantity = 1,
             req_price = Some 95, req_stopPrice = None, req_timeInForce = Some ''GTC''\<rparr>,
            \<lparr>req_symbol = ''BTCUSDT'', req_side = ''SELL'', req_type = ''LIMIT'', req_quantity = 1,
             req_price = Some 105, req_stopPrice = None, req_timeInForce = Some ''GTC''\<rparr>],
         sim_filled = filled\<rparr>,
      clock = 1700000100, sleeps = [],
      active_grids = [''GRID_BTCUSDT_1700000000'' \<mapsto> sim_grid],
      active_oco_orders = Map.empty, monitoring_threads = {}, active_twap_orders = Map.empty\<rparr>"

text \<open>
  A bot with one registered TWAP order as \<^verbatim>\<open>execute_twap_order\<close> registers it:
  3 units in 3 slices over 3 minutes, market orders, nothing executed yet.
\<close>

definition sim_twap :: twap_data where
  "sim_twap =
     \<lparr>tw_symbol = ''BTCUSDT'', tw_side = ''BUY'', total_quantity = 3, remaining_quantity = 3,
      num_slices = 3, slice_quantity = 1, slice_interval = 60, tw_order_type = ''MARKET'',
      tw_price = None, tw_time_in_force = ''GTC'', start_time = 1700000000,
      end_time = 1700000180, tw_status = ''ACTIVE'', executed_orders = [], failed_orders = []\<rparr>"

definition sim_twap_system :: "bool list \<Rightarrow> sim system" where
  "sim_twap_system script =
     (sim_system script [] 1700000000)
       \<lparr>active_twap_orders := [''TWAP_BTCUSDT_1700000000'' \<mapsto> sim_twap]\<rparr>"

section \<open>Auxiliary notions for the proofs\<close>

text \<open>
  \<open>slices_between lo hi twap twap'\<close>: the order \<open>twap'\<close> is \<open>twap\<close> with more
  entries appended to its two lists, all for slices numbered in \<open>(lo, hi]\<close>, and with
  the same plan.
\<close>

definition slices_between :: "int \<Rightarrow> int \<Rightarrow> twap_data \<Rightarrow> twap_data \<Rightarrow> bool" where
  "slices_between lo hi twap twap' \<longleftrightarrow>
     (\<exists>xs fs. executed_orders twap' = executed_orders twap @ xs \<and>
              failed_orders twap' = failed_orders twap @ fs \<and>
              (\<forall>x\<in>set xs. lo < ex_slice_num x \<and> ex_slice_num x \<le> hi) \<and>
              (\<forall>f\<in>set fs. lo < fs_slice_num f \<and> fs_slice_num f \<le> hi)) \<and>
     num_slices twap' = num_slices twap \<and> slice_quantity twap' = slice_quantity twap \<and>
     slice_interval twap' = slice_interval twap \<and> total_quantity twap' = total_quantity twap \<and>
     tw_symbol twap' = tw_symbol twap \<and> tw_side twap' = tw_side twap \<and>
     tw_order_type twap' = tw_order_type twap \<and> tw_price twap' = tw_price twap \<and>
     tw_time_in_force twap' = tw_time_in_force twap"

text \<open>
  The traffic a grid execution is expected to cause on the exchange. For a level that
  passes the validators, \<^verbatim>\<open>place_limit_order\<close> asks for the symbol list and then sends
  one LIMIT request, good till cancelled, with the side, quantity and price of the level.
  \<open>exchange_run\<close> does just that for the levels in order, on the exchange alone: it
  returns the levels the exchange accepted, each with its reply, and the exchange after
  the last call.
\<close>

definition level_request :: "string \<Rightarrow> grid_level \<Rightarrow> order_req" where
  "level_request symbol lv =
     \<lparr>req_symbol = upper symbol, req_side = upper (lv_side lv), req_type = ''LIMIT'',
      req_quantity = lv_quantity lv, req_price = Some (lv_price lv), req_stopPrice = None,
      req_timeInForce = Some ''GTC''\<rparr>"

fun exchange_run ::
  "'g client \<Rightarrow> string \<Rightarrow> grid_level list \<Rightarrow> 'g \<Rightarrow> (grid_level \<times> order_resp) list \<times> 'g" where
  "exchange_run c symbol [] g = ([], g)"
| "exchange_run c symbol (lv # rest) g =
     (case futures_create_order c (snd (futures_exchange_info c g)) (level_request symbol lv) of
        (Inr order, g1) \<Rightarrow>
          (case exchange_run c symbol rest g1 of (acc, g2) \<Rightarrow> ((lv, order) # acc, g2))
      | (Inl e, g1) \<Rightarrow> exchange_run c symbol rest g1)"

definition valid_level :: "grid_level \<Rightarrow> bool" where
  "valid_level lv \<longleftrightarrow>
     upper (lv_side lv) \<in> set [''BUY'', ''SELL''] \<and> 0 < lv_quantity lv \<and> 0 < lv_price lv"

text \<open>
  The form \<^verbatim>\<open>{PREFIX}_{symbol}_{creation-epoch-seconds}\<close> that the specification gives
  for a strategy identifier, and the test that a string ends with another one: every
  identifier of that form ends with \<^verbatim>\<open>_{symbol}_{creation-epoch-seconds}\<close>.
\<close>

definition spec_strategy_id :: "string \<Rightarrow> string \<Rightarrow> real \<Rightarrow> string" where
  "spec_strategy_id prefix symbol now = prefix @ ''_'' @ symbol @ ''_'' @ str_int (py_int now)"

definition ends_with :: "string \<Rightarrow> string \<Rightarrow> bool" where
  "ends_with xs ys \<longleftrightarrow>
     length ys \<le> length xs \<and> drop (length xs - length ys) xs = ys"

section \<open>Status reports of the exchange\<close>

text \<open>
  The exchange in state \<open>g\<close> reports the order of a placement as filled: what the
  branch \<^verbatim>\<open>order_status['status'] == 'FILLED'\<close> of \<^verbatim>\<open>get_grid_status\<close> tests.
\<close>

definition reports_filled :: "'g client \<Rightarrow> 'g \<Rightarrow> string \<Rightarrow> order_info \<Rightarrow> bool" where
  "reports_filled c g symbol info =
     (case fst (futures_get_order c g symbol (orderId (oi_order info))) of
        Inr st \<Rightarrow> order_status st = ''FILLED''
      | Inl e \<Rightarrow> False)"

section \<open>Evaluation lemmas\<close>

lemma validate_symbol_eq:
  "validate_symbol c symbol w =
     (if length symbol < 3 then (Inl (ValueError ''Invalid symbol format''), w)
      else (Inr (upper symbol), w\<lparr>gateway := snd (futures_exchange_info c (gateway w))\<rparr>))"
  by (simp add: validate_symbol_def Let_def split: prod.splits sum.splits)

lemma binary64_staged:
  "binary64 x = (if x = 0 then 0 else b64_at x (max (- 1074) (floor_log2 \<bar>x\<bar> - 52)))"
  by (simp add: binary64_def b64_at_def Let_def)

lemmas b64 =
  binary64_staged b64_at_def floor_log2_def ilog2.simps scale2_def round_half_even_def Let_def

lemmas validators =
  validate_symbol_eq validate_side_def validate_quantity_def validate_price_def

lemmas sim_defs =
  sim_client_def sim_create_order_def sim_get_order_def sim_exchange_info_def sim_system_def
  sim_grid_system_def sim_grid_def sim_twap_system_def sim_twap_def

lemma upper_samples [simp]:
  "upper ''BTCUSDT'' = ''BTCUSDT''" "upper ''btcusdt'' = ''BTCUSDT''"
  "upper ''BUY'' = ''BUY''" "upper ''buy'' = ''BUY''" "upper ''SELL'' = ''SELL''"
  by (simp_all add: upper_def upper_char_def)

lemma stamp_sample [simp]: "str_int (py_int 1700000000) = ''1700000000''"
  by (simp add: str_int_def py_int_def str_nat.simps)

section \<open>OCO: the bracket check and a failing leg\<close>

text \<open>
  Claim C5, as amended. \<^verbatim>\<open>place_oco_order\<close> rejects every input whose validated side
  is BUY with take-profit price \<open>\<le>\<close> stop-loss price, and every input whose validated
  side is SELL with take-profit price \<open>\<ge>\<close> stop-loss price: the call raises a
  \<^verbatim>\<open>ValueError\<close> (from the bracket check, or from an earlier validation). No order is
  placed: the result does not depend on what \<^verbatim>\<open>futures_create_order\<close> would do, the
  registries are untouched, and the exchange is in the state the symbol validation left
  it in. That validation has queried the exchange once (\<^verbatim>\<open>futures_exchange_info\<close>)
  unless the symbol was shorter than three characters.
\<close>

theorem oco_bracket_rejected:
  assumes "upper side = ''BUY'' \<and> tp \<le> sl \<or> upper side = ''SELL'' \<and> sl \<le> tp"
  shows "(\<exists>msg. fst (place_oco_order c symbol side q tp sl tif s) = Inl (ValueError msg)) \<and>
         snd (place_oco_order c symbol side q tp sl tif s) =
           (if length symbol < 3 then s
            else s\<lparr>gateway := snd (futures_exchange_info c (gateway s))\<rparr>) \<and>
         place_oco_order (c\<lparr>futures_create_order := f\<rparr>) symbol side q tp sl tif s =
           place_oco_order c symbol side q tp sl tif s"
  using assms
  by (auto simp: place_oco_order_def validators Let_def)

text \<open>A BUY pair with take-profit 90 below stop-loss 110 on the simulated exchange.\<close>

theorem oco_bracket_rejected_witness:
  "upper ''buy'' = ''BUY'' \<and> (90::real) \<le> 110 \<and>
   fst (place_oco_order sim_client ''BTCUSDT'' ''buy'' 1 90 110 ''GTC''
          (sim_system [] [] 1700000000)) =
     Inl (ValueError ''For BUY orders: take_profit_price must be > stop_loss_price'') \<and>
   sim_orders (gateway (snd (place_oco_order sim_client ''BTCUSDT'' ''buy'' 1 90 110 ''GTC''
          (sim_system [] [] 1700000000)))) = []"
  using oco_bracket_rejected [of "''buy''" 90 110 sim_client "''BTCUSDT''" 1 "''GTC''"
      "sim_system [] [] 1700000000" sim_create_order]
  by (simp add: place_oco_order_def validators sim_defs Let_def)

text \<open>
  The claim as stated, "before any Gateway call is made", fails: when the rejection is
  raised the exchange has already been called once, by \<^verbatim>\<open>validate_symbol\<close>.
\<close>

theorem oco_bracket_gateway_call_counterexample:
  "fst (place_oco_order sim_client ''BTCUSDT'' ''BUY'' 1 90 110 ''GTC''
          (sim_system [] [] 1700000000)) =
     Inl (ValueError ''For BUY orders: take_profit_price must be > stop_loss_price'') \<and>
   sim_log (gateway (sim_system [] [] 1700000000)) = [] \<and>
   sim_log (gateway (snd (place_oco_order sim_client ''BTCUSDT'' ''BUY'' 1 90 110 ''GTC''
          (sim_system [] [] 1700000000)))) = [''futures_exchange_info'']"
  by (simp add: place_oco_order_def validators sim_defs Let_def)

text \<open>
  Claim C2, as amended. For an input that passes validation, \<^verbatim>\<open>place_oco_order\<close> does
  exactly this. If the take-profit placement raises, the exception reaches the caller
  and the bot is as before but for the exchange. If the take-profit order is accepted
  and the stop-loss placement raises, the exception reaches the caller and the bot is as
  before but for the exchange, which is in the state the failed call left: the accepted
  take-profit order is not cancelled. In neither case is an OCO registered or a monitor
  started. If both are accepted, the pair is registered and its monitor started.
\<close>

theorem oco_leg_failure:
  assumes "3 \<le> length symbol"
    and "upper side = ''BUY'' \<and> sl < tp \<or> upper side = ''SELL'' \<and> tp < sl"
    and "0 < q" and "0 < tp" and "0 < sl"
    and "tif \<in> set [''GTC'', ''IOC'', ''FOK'']"
  shows
    "(case futures_create_order c (snd (futures_exchange_info c (gateway s)))
             (take_profit_req (upper symbol) (upper side) q tp tif) of
        (Inl e, g2) \<Rightarrow>
          place_oco_order c symbol side q tp sl tif s = (Inl e, s\<lparr>gateway := g2\<rparr>)
      | (Inr tp_order, g2) \<Rightarrow>
          (case futures_create_order c g2 (stop_loss_req (upper symbol) (upper side) q sl) of
             (Inl e, g3) \<Rightarrow>
               place_oco_order c symbol side q tp sl tif s = (Inl e, s\<lparr>gateway := g3\<rparr>)
           | (Inr sl_order, g3) \<Rightarrow>
               (\<exists>r s'. place_oco_order c symbol side q tp sl tif s = (Inr r, s') \<and>
                  gateway s' = g3 \<and>
                  or_oco_id r \<in> dom (active_oco_orders s') \<and>
                  or_oco_id r \<in> monitoring_threads s')))"
  using assms
  by (auto simp: place_oco_order_def validators create_order_def start_oco_monitoring_def Let_def
      split: prod.splits sum.splits)

text \<open>A SELL pair whose take-profit placement the simulated exchange rejects.\<close>

theorem oco_leg_failure_witness:
  "place_oco_order sim_client ''BTCUSDT'' ''SELL'' 1 90 110 ''GTC''
       (sim_system [False] [] 1700000000) =
     (Inl (ClientError ''order rejected''),
      (sim_system [] [] 1700000000)
        \<lparr>gateway :=
           \<lparr>sim_log = [''futures_exchange_info'', ''futures_create_order''],
            sim_script = [], sim_orders = [], sim_filled = []\<rparr>\<rparr>)"
  using oco_leg_failure [of "''BTCUSDT''" "''SELL''" 110 90 1 "''GTC''" sim_client
      "sim_system [False] [] 1700000000"]
  by (simp add: sim_defs)

text \<open>
  The claim as stated, "no single live leg remains working after the call fails", fails:
  the exchange accepts the take-profit order and rejects the stop-loss order; the call
  raises, nothing is registered, and the take-profit order stays on the exchange.
\<close>

theorem oco_live_leg_counterexample:
  "place_oco_order sim_client ''BTCUSDT'' ''BUY'' 1 110 90 ''GTC''
       (sim_system [True, False] [] 1700000000) =
     (Inl (ClientError ''order rejected''),
      (sim_system [] [] 1700000000)
        \<lparr>gateway :=
           \<lparr>sim_log = [''futures_exchange_info'', ''futures_create_order'', ''futures_create_order''],
            sim_script = [],
            sim_orders = [take_profit_req ''BTCUSDT'' ''BUY'' 1 110 ''GTC''],
            sim_filled = []\<rparr>\<rparr>)"
  by (simp add: place_oco_order_def validators create_order_def sim_defs Let_def)

section \<open>Grid: level generation\<close>


















section \<open>Grid: a single order\<close>

text \<open>
  Claim C6. The step is computed by dividing by \<open>num_orders - 1\<close> without a guard:
  for every input that passes validation with \<open>num_orders = 1\<close> and no given price step,
  \<^verbatim>\<open>create_grid_strategy\<close> raises \<^verbatim>\<open>ZeroDivisionError\<close> and registers nothing.
\<close>

theorem grid_single_order_raises:
  assumes "3 \<le> length symbol" and "upper side \<in> set [''BUY'', ''SELL'']" and "0 < q"
    and "0 < lo" and "lo < hi" and "gt \<in> set [''LINEAR'', ''LOGARITHMIC'']"
  shows "create_grid_strategy rnd c symbol side q lo hi 1 gt None s =
           (Inl ZeroDivisionError, s\<lparr>gateway := snd (futures_exchange_info c (gateway s))\<rparr>)"
  using assms
  by (auto simp: create_grid_strategy_def validators grid_price_step_def truediv_def Let_def)

text \<open>One order between 95 and 105 on the simulated exchange.\<close>

theorem grid_single_order_raises_witness:
  "create_grid_strategy binary64 sim_client ''BTCUSDT'' ''BUY'' 1 95 105 1 ''LINEAR'' None
       (sim_system [] [] 1700000000) =
     (Inl ZeroDivisionError,
      (sim_system [] [] 1700000000)
        \<lparr>gateway := \<lparr>sim_log = [''futures_exchange_info''], sim_script = [], sim_orders = [],
                      sim_filled = []\<rparr>\<rparr>)"
  using grid_single_order_raises [of "''BTCUSDT''" "''BUY''" 1 95 105 "''LINEAR''" binary64
      sim_client "sim_system [] [] 1700000000"]
  by (simp add: sim_defs)

section \<open>Grid: executing a plan\<close>

text \<open>
  A valid level costs one query of the symbol list and one LIMIT request; the placement
  loop over valid levels causes the traffic of \<open>exchange_run\<close>, books the accepted
  levels with the replies of the exchange, and sleeps once after each accepted level.
\<close>

lemma place_limit_valid:
  assumes "3 \<le> length symbol" and "valid_level lv"
  shows "place_limit_order c symbol (lv_side lv) (lv_quantity lv) (Some (lv_price lv)) ''GTC'' w =
     (case futures_create_order c (snd (futures_exchange_info c (gateway w)))
             (level_request symbol lv) of
        (r, g1) \<Rightarrow> (r, w\<lparr>gateway := g1\<rparr>))"
  using assms
  by (auto simp: place_limit_order_def validators create_order_def level_request_def
      valid_level_def split: prod.splits)

lemma place_levels_run:
  assumes "3 \<le> length (gr_symbol gd)" and "\<forall>lv\<in>set lvs. valid_level lv"
  shows "\<exists>new fl w'.
     place_levels c lvs (gd, placed, failed, w) =
       (gd\<lparr>placed_orders := placed_orders gd @ new\<rparr>, placed @ new, failed @ fl, w') \<and>
     length new + length fl = length lvs \<and>
     gateway w' = snd (exchange_run c (gr_symbol gd) lvs (gateway w)) \<and>
     map (\<lambda>e. (oi_grid_level e, oi_price e, oi_side e, oi_quantity e, oi_order e)) new =
       map (\<lambda>(lv, order). (lv_level lv, lv_price lv, lv_side lv, lv_quantity lv, order))
         (fst (exchange_run c (gr_symbol gd) lvs (gateway w))) \<and>
     sleeps w' = sleeps w @ replicate (length new) tenth"
  using assms
proof (induction lvs arbitrary: gd placed failed w)
  case Nil
  show ?case by simp
next
  case (Cons lv rest)
  have sym: "3 \<le> length (gr_symbol gd)" and lv: "valid_level lv"
    and rest: "\<forall>lv\<in>set rest. valid_level lv"
    using Cons.prems by simp_all
  obtain r g1 where call: "futures_create_order c (snd (futures_exchange_info c (gateway w)))
      (level_request (gr_symbol gd) lv) = (r, g1)"
    by (cases "futures_create_order c (snd (futures_exchange_info c (gateway w)))
      (level_request (gr_symbol gd) lv)") auto
  have p: "place_limit_order c (gr_symbol gd) (lv_side lv) (lv_quantity lv)
      (Some (lv_price lv)) ''GTC'' w = (r, w\<lparr>gateway := g1\<rparr>)"
    by (simp add: place_limit_valid [OF sym lv] call)
  show ?case
  proof (cases r)
    case (Inl e)
    define entry where "entry = \<lparr>fi_grid_level = lv_level lv, fi_price = lv_price lv,
        fi_side = lv_side lv, fi_quantity = lv_quantity lv, fi_error = str_exn e,
        fi_timestamp = clock (w\<lparr>gateway := g1\<rparr>)\<rparr>"
    from Cons.IH [OF sym rest, of placed "failed @ [entry]" "w\<lparr>gateway := g1\<rparr>"]
    obtain new fl w' where ih:
      "place_levels c rest (gd, placed, failed @ [entry], w\<lparr>gateway := g1\<rparr>) =
         (gd\<lparr>placed_orders := placed_orders gd @ new\<rparr>, placed @ new, (failed @ [entry]) @ fl, w')"
      "length new + length fl = length rest"
      "gateway w' = snd (exchange_run c (gr_symbol gd) rest (gateway (w\<lparr>gateway := g1\<rparr>)))"
      "map (\<lambda>e. (oi_grid_level e, oi_price e, oi_side e, oi_quantity e, oi_order e)) new =
         map (\<lambda>(lv, order). (lv_level lv, lv_price lv, lv_side lv, lv_quantity lv, order))
           (fst (exchange_run c (gr_symbol gd) rest (gateway (w\<lparr>gateway := g1\<rparr>))))"
      "sleeps w' = sleeps (w\<lparr>gateway := g1\<rparr>) @ replicate (length new) tenth"
      by blast
    show ?thesis
      by (rule exI [of _ new], rule exI [of _ "entry # fl"], rule exI [of _ w'])
        (use ih p Inl call in \<open>simp add: entry_def\<close>)
  next
    case (Inr order)
    define info where "info = \<lparr>oi_grid_level = lv_level lv, oi_price = lv_price lv,
        oi_side = lv_side lv, oi_quantity = lv_quantity lv, oi_order = order,
        oi_timestamp = clock (w\<lparr>gateway := g1\<rparr>)\<rparr>"
    define gd1 where "gd1 = gd\<lparr>placed_orders := placed_orders gd @ [info]\<rparr>"
    have sym1: "3 \<le> length (gr_symbol gd1)"
      using sym by (simp add: gd1_def)
    from Cons.IH [OF sym1 rest, of "placed @ [info]" failed "sleep tenth (w\<lparr>gateway := g1\<rparr>)"]
    obtain new fl w' where ih:
      "place_levels c rest (gd1, placed @ [info], failed, sleep tenth (w\<lparr>gateway := g1\<rparr>)) =
         (gd1\<lparr>placed_orders := placed_orders gd1 @ new\<rparr>, (placed @ [info]) @ new,
          failed @ fl, w')"
      "length new + length fl = length rest"
      "gateway w' = snd (exchange_run c (gr_symbol gd1) rest
         (gateway (sleep tenth (w\<lparr>gateway := g1\<rparr>))))"
      "map (\<lambda>e. (oi_grid_level e, oi_price e, oi_side e, oi_quantity e, oi_order e)) new =
         map (\<lambda>(lv, order). (lv_level lv, lv_price lv, lv_side lv, lv_quantity lv, order))
           (fst (exchange_run c (gr_symbol gd1) rest
              (gateway (sleep tenth (w\<lparr>gateway := g1\<rparr>)))))"
      "sleeps w' = sleeps (sleep tenth (w\<lparr>gateway := g1\<rparr>)) @ replicate (length new) tenth"
      by blast
    show ?thesis
      by (rule exI [of _ "info # new"], rule exI [of _ fl], rule exI [of _ w'])
        (use ih p Inr call in \<open>simp add: info_def gd1_def sleep_def Let_def split: prod.splits\<close>)
  qed
qed

text \<open>The placement loop appends: what it returns, for any accumulator.\<close>

lemma place_levels_appends:
  "\<exists>new fl w'.
     place_levels c lvs (gd, placed, failed, w) =
       (gd\<lparr>placed_orders := placed_orders gd @ new\<rparr>, placed @ new, failed @ fl, w') \<and>
     length new + length fl = length lvs \<and>
     set (map oi_grid_level new) \<subseteq> set (map lv_level lvs)"
proof (induction lvs arbitrary: gd placed failed w)
  case Nil
  show ?case by simp
next
  case (Cons lv rest)
  obtain r w1 where p: "place_limit_order c (gr_symbol gd) (lv_side lv) (lv_quantity lv)
      (Some (lv_price lv)) ''GTC'' w = (r, w1)"
    by (cases "place_limit_order c (gr_symbol gd) (lv_side lv) (lv_quantity lv)
      (Some (lv_price lv)) ''GTC'' w") auto
  show ?case
  proof (cases r)
    case (Inl e)
    from Cons.IH [of gd placed "failed @ [\<lparr>fi_grid_level = lv_level lv, fi_price = lv_price lv,
                        fi_side = lv_side lv, fi_quantity = lv_quantity lv,
                        fi_error = str_exn e, fi_timestamp = clock w1\<rparr>]" w1]
    obtain new fl w' where
      "place_levels c rest (gd, placed, failed @ [\<lparr>fi_grid_level = lv_level lv, fi_price = lv_price lv,
                        fi_side = lv_side lv, fi_quantity = lv_quantity lv,
                        fi_error = str_exn e, fi_timestamp = clock w1\<rparr>], w1) =
       (gd\<lparr>placed_orders := placed_orders gd @ new\<rparr>, placed @ new,
        (failed @ [\<lparr>fi_grid_level = lv_level lv, fi_price = lv_price lv,
                        fi_side = lv_side lv, fi_quantity = lv_quantity lv,
                        fi_error = str_exn e, fi_timestamp = clock w1\<rparr>]) @ fl, w')"
      and "length new + length fl = length rest"
      and "set (map oi_grid_level new) \<subseteq> set (map lv_level rest)"
      by blast
    then show ?thesis
      using p Inl
      by (intro exI [of _ new] exI [of _ "\<lparr>fi_grid_level = lv_level lv, fi_price = lv_price lv,
                        fi_side = lv_side lv, fi_quantity = lv_quantity lv,
                        fi_error = str_exn e, fi_timestamp = clock w1\<rparr> # fl"] exI [of _ w'])
        auto
  next
    case (Inr order)
    define info where "info = \<lparr>oi_grid_level = lv_level lv, oi_price = lv_price lv,
        oi_side = lv_side lv, oi_quantity = lv_quantity lv, oi_order = order,
        oi_timestamp = clock w1\<rparr>"
    from Cons.IH [of "gd\<lparr>placed_orders := placed_orders gd @ [info]\<rparr>" "placed @ [info]" failed
        "sleep tenth w1"]
    obtain new fl w' where
      "place_levels c rest (gd\<lparr>placed_orders := placed_orders gd @ [info]\<rparr>, placed @ [info],
          failed, sleep tenth w1) =
       (gd\<lparr>placed_orders := placed_orders gd @ [info]\<rparr>
          \<lparr>placed_orders := placed_orders (gd\<lparr>placed_orders := placed_orders gd @ [info]\<rparr>) @ new\<rparr>,
        (placed @ [info]) @ new, failed @ fl, w')"
      and "length new + length fl = length rest"
      and "set (map oi_grid_level new) \<subseteq> set (map lv_level rest)"
      by blast
    then show ?thesis
      using p Inr
      by (intro exI [of _ "info # new"] exI [of _ fl] exI [of _ w'])
        (auto simp: info_def Let_def)
  qed
qed


text \<open>One execution of a registered grid.\<close>

lemma execute_grid_once:
  assumes "active_grids s grid_id = Some gd"
  shows "\<exists>rep s'.
     execute_grid_orders c grid_id s = (Inr rep, s') \<and>
     active_grids s' grid_id =
       Some (gd\<lparr>gr_status := ''ACTIVE'', placed_orders := placed_orders gd @ er_orders rep\<rparr>) \<and>
     er_status rep = ''ACTIVE'' \<and>
     er_placed_orders rep = length (er_orders rep) \<and>
     er_placed_orders rep + er_failed_orders rep = length (grid_levels gd) \<and>
     (3 \<le> length (gr_symbol gd) \<and> (\<forall>lv\<in>set (grid_levels gd). valid_level lv) \<longrightarrow>
        gateway s' = snd (exchange_run c (gr_symbol gd) (grid_levels gd) (gateway s)) \<and>
        map (\<lambda>e. (oi_grid_level e, oi_price e, oi_side e, oi_quantity e, oi_order e))
            (er_orders rep) =
          map (\<lambda>(lv, order). (lv_level lv, lv_price lv, lv_side lv, lv_quantity lv, order))
            (fst (exchange_run c (gr_symbol gd) (grid_levels gd) (gateway s))) \<and>
        sleeps s' = sleeps s @ replicate (length (er_orders rep)) tenth)"
proof -
  define g0 where "g0 = gd\<lparr>gr_status := ''EXECUTING''\<rparr>"
  obtain new fl w' where run:
    "place_levels c (grid_levels gd) (g0, [], [], s) =
       (g0\<lparr>placed_orders := placed_orders g0 @ new\<rparr>, [] @ new, [] @ fl, w')"
    and count: "length new + length fl = length (grid_levels gd)"
    using place_levels_appends [of c "grid_levels gd" g0 "[]" "[]" s] by blast
  define rep where "rep = \<lparr>er_grid_id = grid_id, er_status = ''ACTIVE'',
    er_placed_orders = length new, er_failed_orders = length fl, er_orders = new\<rparr>"
  define s' where "s' = w'\<lparr>active_grids := (active_grids w')(grid_id \<mapsto>
    g0\<lparr>placed_orders := placed_orders g0 @ new\<rparr>\<lparr>gr_status := ''ACTIVE''\<rparr>)\<rparr>"
  have ex: "execute_grid_orders c grid_id s = (Inr rep, s')"
    using assms run by (simp add: execute_grid_orders_def g0_def rep_def s'_def)
  have reg: "active_grids s' grid_id =
       Some (gd\<lparr>gr_status := ''ACTIVE'', placed_orders := placed_orders gd @ er_orders rep\<rparr>)"
    by (simp add: s'_def g0_def rep_def)
  have traffic: "gateway s' = snd (exchange_run c (gr_symbol gd) (grid_levels gd) (gateway s)) \<and>
        map (\<lambda>e. (oi_grid_level e, oi_price e, oi_side e, oi_quantity e, oi_order e))
            (er_orders rep) =
          map (\<lambda>(lv, order). (lv_level lv, lv_price lv, lv_side lv, lv_quantity lv, order))
            (fst (exchange_run c (gr_symbol gd) (grid_levels gd) (gateway s))) \<and>
        sleeps s' = sleeps s @ replicate (length (er_orders rep)) tenth"
    if v: "3 \<le> length (gr_symbol gd)" "\<forall>lv\<in>set (grid_levels gd). valid_level lv"
  proof -
    have sym: "3 \<le> length (gr_symbol g0)"
      using v(1) by (simp add: g0_def)
    from place_levels_run [OF sym v(2), of c "[]" "[]" s] run
    have "gateway w' = snd (exchange_run c (gr_symbol g0) (grid_levels gd) (gateway s))"
      "map (\<lambda>e. (oi_grid_level e, oi_price e, oi_side e, oi_quantity e, oi_order e)) new =
         map (\<lambda>(lv, order). (lv_level lv, lv_price lv, lv_side lv, lv_quantity lv, order))
           (fst (exchange_run c (gr_symbol g0) (grid_levels gd) (gateway s)))"
      "sleeps w' = sleeps s @ replicate (length new) tenth"
      by auto
    then show ?thesis
      by (simp add: s'_def rep_def g0_def)
  qed
  show ?thesis
    by (rule exI [of _ rep], rule exI [of _ s'])
      (use ex reg count traffic in \<open>simp add: rep_def\<close>)
qed

text \<open>
  Claim C10. \<^verbatim>\<open>execute_grid_orders\<close> checks only that the grid is registered. For a
  registered grid in any state (any status, any earlier placements) the call returns a
  report with status ACTIVE; it has attempted every level once (placed plus failed is the
  number of levels); the grid is as before except that its status is ACTIVE and the new
  placements are appended to \<^verbatim>\<open>placed_orders\<close>. A second call does the same again on
  top of the first. When the symbol and the levels pass the validators, each call sends
  the requests of all levels to the exchange, in order (the exchange ends in the state
  \<open>exchange_run\<close> computes), the placements reported and appended are the levels the
  exchange accepted, with their level number, price, side, quantity and the reply of the
  exchange, and the first call sleeps a tenth of a second after each of them: the levels
  the exchange accepts both times are placed twice.
\<close>

theorem execute_grid_any_status:
  assumes "active_grids s grid_id = Some gd"
  shows "\<exists>rep s' rep2 s''.
     execute_grid_orders c grid_id s = (Inr rep, s') \<and>
     active_grids s' grid_id =
       Some (gd\<lparr>gr_status := ''ACTIVE'', placed_orders := placed_orders gd @ er_orders rep\<rparr>) \<and>
     er_status rep = ''ACTIVE'' \<and>
     er_placed_orders rep = length (er_orders rep) \<and>
     er_placed_orders rep + er_failed_orders rep = length (grid_levels gd) \<and>
     execute_grid_orders c grid_id s' = (Inr rep2, s'') \<and>
     active_grids s'' grid_id =
       Some (gd\<lparr>gr_status := ''ACTIVE'',
                placed_orders := placed_orders gd @ er_orders rep @ er_orders rep2\<rparr>) \<and>
     er_status rep2 = ''ACTIVE'' \<and>
     er_placed_orders rep2 + er_failed_orders rep2 = length (grid_levels gd) \<and>
     (3 \<le> length (gr_symbol gd) \<and> (\<forall>lv\<in>set (grid_levels gd). valid_level lv) \<longrightarrow>
        gateway s' = snd (exchange_run c (gr_symbol gd) (grid_levels gd) (gateway s)) \<and>
        map (\<lambda>e. (oi_grid_level e, oi_price e, oi_side e, oi_quantity e, oi_order e))
            (er_orders rep) =
          map (\<lambda>(lv, order). (lv_level lv, lv_price lv, lv_side lv, lv_quantity lv, order))
            (fst (exchange_run c (gr_symbol gd) (grid_levels gd) (gateway s))) \<and>
        sleeps s' = sleeps s @ replicate (length (er_orders rep)) tenth \<and>
        gateway s'' = snd (exchange_run c (gr_symbol gd) (grid_levels gd) (gateway s')) \<and>
        map (\<lambda>e. (oi_grid_level e, oi_price e, oi_side e, oi_quantity e, oi_order e))
            (er_orders rep2) =
          map (\<lambda>(lv, order). (lv_level lv, lv_price lv, lv_side lv, lv_quantity lv, order))
            (fst (exchange_run c (gr_symbol gd) (grid_levels gd) (gateway s'))))"
proof -
  from execute_grid_once [OF assms, of c] obtain rep s' where
    1: "execute_grid_orders c grid_id s = (Inr rep, s')"
      "active_grids s' grid_id =
        Some (gd\<lparr>gr_status := ''ACTIVE'', placed_orders := placed_orders gd @ er_orders rep\<rparr>)"
      "er_status rep = ''ACTIVE''" "er_placed_orders rep = length (er_orders rep)"
      "er_placed_orders rep + er_failed_orders rep = length (grid_levels gd)"
      "3 \<le> length (gr_symbol gd) \<and> (\<forall>lv\<in>set (grid_levels gd). valid_level lv) \<longrightarrow>
        gateway s' = snd (exchange_run c (gr_symbol gd) (grid_levels gd) (gateway s)) \<and>
        map (\<lambda>e. (oi_grid_level e, oi_price e, oi_side e, oi_quantity e, oi_order e))
            (er_orders rep) =
          map (\<lambda>(lv, order). (lv_level lv, lv_price lv, lv_side lv, lv_quantity lv, order))
            (fst (exchange_run c (gr_symbol gd) (grid_levels gd) (gateway s))) \<and>
        sleeps s' = sleeps s @ replicate (length (er_orders rep)) tenth"
    by blast
  define gd1 where
    "gd1 = gd\<lparr>gr_status := ''ACTIVE'', placed_orders := placed_orders gd @ er_orders rep\<rparr>"
  have reg1: "active_grids s' grid_id = Some gd1"
    using 1(2) by (simp add: gd1_def)
  from execute_grid_once [OF reg1, of c] obtain rep2 s'' where
    2: "execute_grid_orders c grid_id s' = (Inr rep2, s'')"
      "active_grids s'' grid_id =
        Some (gd1\<lparr>gr_status := ''ACTIVE'', placed_orders := placed_orders gd1 @ er_orders rep2\<rparr>)"
      "er_status rep2 = ''ACTIVE''"
      "er_placed_orders rep2 + er_failed_orders rep2 = length (grid_levels gd1)"
      "3 \<le> length (gr_symbol gd1) \<and> (\<forall>lv\<in>set (grid_levels gd1). valid_level lv) \<longrightarrow>
        gateway s'' = snd (exchange_run c (gr_symbol gd1) (grid_levels gd1) (gateway s')) \<and>
        map (\<lambda>e. (oi_grid_level e, oi_price e, oi_side e, oi_quantity e, oi_order e))
            (er_orders rep2) =
          map (\<lambda>(lv, order). (lv_level lv, lv_price lv, lv_side lv, lv_quantity lv, order))
            (fst (exchange_run c (gr_symbol gd1) (grid_levels gd1) (gateway s')))"
    by blast
  have same: "gr_symbol gd1 = gr_symbol gd" "grid_levels gd1 = grid_levels gd"
    by (simp_all add: gd1_def)
  have reg2: "active_grids s'' grid_id =
       Some (gd\<lparr>gr_status := ''ACTIVE'',
                placed_orders := placed_orders gd @ er_orders rep @ er_orders rep2\<rparr>)"
    using 2(2) by (simp add: gd1_def)
  show ?thesis
    apply (rule exI [of _ rep], rule exI [of _ s'], rule exI [of _ rep2], rule exI [of _ s''])
    using 1 2(1,3,4,5) reg2 unfolding same by blast
qed

text \<open>
  The grid of the simulated bot has status CANCELED and both levels placed (orders 1 and
  2). Two more executions send both levels to the exchange two more times (orders 3 to 6)
  and leave the status ACTIVE.
\<close>

theorem execute_grid_any_status_witness:
  "gr_status sim_grid = ''CANCELED'' \<and>
   map oi_grid_level (placed_orders (the (active_grids
      (snd (execute_grid_orders sim_client ''GRID_BTCUSDT_1700000000''
         (snd (execute_grid_orders sim_client ''GRID_BTCUSDT_1700000000''
            (sim_grid_system [] [])))))
      ''GRID_BTCUSDT_1700000000''))) = [1, 2, 1, 2, 1, 2] \<and>
   map (orderId \<circ> oi_order) (placed_orders (the (active_grids
      (snd (execute_grid_orders sim_client ''GRID_BTCUSDT_1700000000''
         (snd (execute_grid_orders sim_client ''GRID_BTCUSDT_1700000000''
            (sim_grid_system [] [])))))
      ''GRID_BTCUSDT_1700000000''))) = [1, 2, 3, 4, 5, 6] \<and>
   gr_status (the (active_grids
      (snd (execute_grid_orders sim_client ''GRID_BTCUSDT_1700000000''
         (snd (execute_grid_orders sim_client ''GRID_BTCUSDT_1700000000''
            (sim_grid_system [] [])))))
      ''GRID_BTCUSDT_1700000000'')) = ''ACTIVE'' \<and>
   map (\<lambda>r. (req_side r, req_price r)) (sim_orders (gateway
      (snd (execute_grid_orders sim_client ''GRID_BTCUSDT_1700000000''
         (snd (execute_grid_orders sim_client ''GRID_BTCUSDT_1700000000''
            (sim_grid_system [] []))))))) =
     [(''BUY'', Some 95), (''SELL'', Some 105), (''BUY'', Some 95), (''SELL'', Some 105),
      (''BUY'', Some 95), (''SELL'', Some 105)]"
proof -
  have reg: "active_grids (sim_grid_system [] []) ''GRID_BTCUSDT_1700000000'' = Some sim_grid"
    by (simp add: sim_grid_system_def)
  have valid: "3 \<le> length (gr_symbol sim_grid) \<and> (\<forall>lv\<in>set (grid_levels sim_grid). valid_level lv)"
    by (simp add: sim_grid_def valid_level_def)
  from execute_grid_any_status [OF reg, of sim_client] valid obtain rep s' rep2 s'' where
    e1: "execute_grid_orders sim_client ''GRID_BTCUSDT_1700000000'' (sim_grid_system [] []) =
           (Inr rep, s')"
    and e2: "execute_grid_orders sim_client ''GRID_BTCUSDT_1700000000'' s' = (Inr rep2, s'')"
    and r2: "active_grids s'' ''GRID_BTCUSDT_1700000000'' =
           Some (sim_grid\<lparr>gr_status := ''ACTIVE'',
                   placed_orders := placed_orders sim_grid @ er_orders rep @ er_orders rep2\<rparr>)"
    and g1: "gateway s' = snd (exchange_run sim_client (gr_symbol sim_grid) (grid_levels sim_grid)
           (gateway (sim_grid_system [] [])))"
    and f1: "map (\<lambda>e. (oi_grid_level e, oi_price e, oi_side e, oi_quantity e, oi_order e))
            (er_orders rep) =
          map (\<lambda>(lv, order). (lv_level lv, lv_price lv, lv_side lv, lv_quantity lv, order))
            (fst (exchange_run sim_client (gr_symbol sim_grid) (grid_levels sim_grid)
               (gateway (sim_grid_system [] []))))"
    and g2: "gateway s'' = snd (exchange_run sim_client (gr_symbol sim_grid) (grid_levels sim_grid)
           (gateway s'))"
    and f2: "map (\<lambda>e. (oi_grid_level e, oi_price e, oi_side e, oi_quantity e, oi_order e))
            (er_orders rep2) =
          map (\<lambda>(lv, order). (lv_level lv, lv_price lv, lv_side lv, lv_quantity lv, order))
            (fst (exchange_run sim_client (gr_symbol sim_grid) (grid_levels sim_grid)
               (gateway s')))"
    by blast
  note ev = sim_client_def sim_create_order_def sim_exchange_info_def sim_grid_system_def
    sim_grid_def level_request_def
  have G1: "gateway s' =
      \<lparr>sim_log = [''futures_exchange_info'', ''futures_create_order'',
                  ''futures_exchange_info'', ''futures_create_order''],
       sim_script = [],
       sim_orders = sim_orders (gateway (sim_grid_system [] [])) @
         [level_request ''BTCUSDT'' (grid_levels sim_grid ! 0),
          level_request ''BTCUSDT'' (grid_levels sim_grid ! 1)],
       sim_filled = []\<rparr>"
    unfolding g1 by (simp add: ev)
  have proj: "map oi_grid_level xs =
      map fst (map (\<lambda>e. (oi_grid_level e, oi_price e, oi_side e, oi_quantity e, oi_order e)) xs)"
    "map (orderId \<circ> oi_order) xs =
      map (\<lambda>t. orderId (snd (snd (snd (snd t)))))
        (map (\<lambda>e. (oi_grid_level e, oi_price e, oi_side e, oi_quantity e, oi_order e)) xs)"
    for xs
    by (simp_all add: comp_def)
  have F1: "map oi_grid_level (er_orders rep) = [1, 2]"
    "map (orderId \<circ> oi_order) (er_orders rep) = [3, 4]"
    unfolding proj f1 by (simp_all add: ev)
  have F2: "map oi_grid_level (er_orders rep2) = [1, 2]"
    "map (orderId \<circ> oi_order) (er_orders rep2) = [5, 6]"
    unfolding proj f2 G1 by (simp_all add: ev)
  have G2: "map (\<lambda>r. (req_side r, req_price r)) (sim_orders (gateway s'')) =
     [(''BUY'', Some 95), (''SELL'', Some 105), (''BUY'', Some 95), (''SELL'', Some 105),
      (''BUY'', Some 95), (''SELL'', Some 105)]"
    unfolding g2 G1 by (simp add: ev)
  have P: "map oi_grid_level (placed_orders sim_grid) = [1, 2]"
    "map (orderId \<circ> oi_order) (placed_orders sim_grid) = [1, 2]"
    "gr_status sim_grid = ''CANCELED''"
    by (simp_all add: sim_grid_def)
  show ?thesis
    unfolding e1 e2 snd_conv r2 using F1 F2 G2 P by simp
qed

section \<open>Grid: refreshing the status\<close>

text \<open>What one pass of the polling loop does to the filled list.\<close>

lemma get_order_status_quiet:
  assumes "\<forall>g symbol oid. snd (futures_get_order c g symbol oid) = g"
  shows "get_order_status c symbol oid w = (fst (futures_get_order c (gateway w) symbol oid), w)"
proof -
  have "snd (futures_get_order c (gateway w) symbol oid) = gateway w"
    using assms by blast
  then show ?thesis
    by (cases "futures_get_order c (gateway w) symbol oid") (simp add: get_order_status_def)
qed

lemma poll_orders_quiet:
  assumes "\<forall>g symbol oid. snd (futures_get_order c g symbol oid) = g"
  shows "\<exists>n_a n_f n_c.
     poll_orders c symbol infos (filled, a, f, cn, w) =
       (foldl (\<lambda>acc info. if reports_filled c (gateway w) symbol info \<and> info \<notin> set acc
                            then acc @ [info] else acc) filled infos,
        n_a, n_f, n_c, w) \<and>
     (\<forall>filled' w'. gateway w' = gateway w \<longrightarrow>
        poll_orders c symbol infos (filled', a, f, cn, w') =
          (foldl (\<lambda>acc info. if reports_filled c (gateway w) symbol info \<and> info \<notin> set acc
                               then acc @ [info] else acc) filled' infos,
           n_a, n_f, n_c, w'))"
proof (induction infos arbitrary: filled a f cn)
  case Nil
  show ?case by simp
next
  case (Cons info rest)
  note q = get_order_status_quiet [OF assms]
  show ?case
  proof (cases "fst (futures_get_order c (gateway w) symbol (orderId (oi_order info)))")
    case (Inl e)
    then show ?thesis
      using Cons.IH [of filled a f cn]
      by (simp add: q reports_filled_def)
  next
    case (Inr st)
    show ?thesis
    proof (cases "order_status st = ''FILLED''")
      case True
      with Inr show ?thesis
        using Cons.IH [of "if info \<notin> set filled then filled @ [info] else filled" a "f + 1" cn]
        by (auto simp add: q reports_filled_def)
    next
      case False
      with Inr show ?thesis
        using Cons.IH [of filled a f "cn + 1"] Cons.IH [of filled "a + 1" f cn]
        by (auto simp add: q reports_filled_def)
    qed
  qed
qed


lemma add_filled_set:
  "set (foldl (\<lambda>acc info. if P info \<and> info \<notin> set acc then acc @ [info] else acc) filled infos) =
     set filled \<union> {info \<in> set infos. P info}"
  by (induction infos arbitrary: filled) auto

lemma add_filled_distinct:
  "distinct filled \<Longrightarrow>
   distinct (foldl (\<lambda>acc info. if P info \<and> info \<notin> set acc then acc @ [info] else acc) filled infos)"
  by (induction infos arbitrary: filled) auto

lemma add_filled_idem:
  "{info \<in> set infos. P info} \<subseteq> set filled \<Longrightarrow>
   foldl (\<lambda>acc info. if P info \<and> info \<notin> set acc then acc @ [info] else acc) filled infos = filled"
  by (induction infos arbitrary: filled) auto

text \<open>
  Claim C8. While status queries leave the exchange as it is, \<^verbatim>\<open>get_grid_status\<close>
  called a second time returns the same report and leaves the bot, and so the filled list
  of the grid, unchanged. The filled list after a refresh holds the orders it held before
  and the placed orders the exchange reports as filled, and a list without duplicates
  stays without duplicates (entries are compared as whole placement records, which
  contain the order).
\<close>

theorem grid_status_idempotent:
  assumes quiet: "\<forall>g symbol oid. snd (futures_get_order c g symbol oid) = g"
    and reg: "active_grids s grid_id = Some gd"
  shows "\<exists>rep s1 gd1.
           get_grid_status c grid_id s = (Inr rep, s1) \<and>
           get_grid_status c grid_id s1 = (Inr rep, s1) \<and>
           active_grids s1 grid_id = Some gd1 \<and>
           set (filled_orders gd1) =
             set (filled_orders gd) \<union>
             {info \<in> set (placed_orders gd). reports_filled c (gateway s) (gr_symbol gd) info} \<and>
           (distinct (filled_orders gd) \<longrightarrow> distinct (filled_orders gd1))"
proof -
  define add where "add = foldl (\<lambda>acc info.
      if reports_filled c (gateway s) (gr_symbol gd) info \<and> info \<notin> set acc
      then acc @ [info] else acc)"
  obtain n_a n_f n_c where
    first: "poll_orders c (gr_symbol gd) (placed_orders gd) (filled_orders gd, 0, 0, 0, s) =
       (add (filled_orders gd) (placed_orders gd), n_a, n_f, n_c, s)"
    and any: "\<And>filled' (w' :: 'a system). gateway w' = gateway s \<Longrightarrow>
        poll_orders c (gr_symbol gd) (placed_orders gd) (filled', 0, 0, 0, w') =
          (add filled' (placed_orders gd), n_a, n_f, n_c, w')"
    using poll_orders_quiet [OF quiet, of "gr_symbol gd" "placed_orders gd" "filled_orders gd" 0 0 0 s]
    unfolding add_def by blast
  define gd1 where "gd1 = gd\<lparr>filled_orders := add (filled_orders gd) (placed_orders gd)\<rparr>"
  define s1 where "s1 = s\<lparr>active_grids := (active_grids s)(grid_id \<mapsto> gd1)\<rparr>"
  define rep where "rep = \<lparr>gs_grid_id = grid_id, gs_symbol = gr_symbol gd,
      gs_side = gr_side gd, gs_status = gr_status gd, gs_num_orders = gr_num_orders gd,
      gs_active_orders = n_a, gs_filled_orders = n_f, gs_canceled_orders = n_c,
      gs_created_time = created_time gd, gs_grid_levels = grid_levels gd\<rparr>"
  have one: "get_grid_status c grid_id s = (Inr rep, s1)"
    by (simp add: get_grid_status_def reg first rep_def s1_def gd1_def)
  have setf: "set (filled_orders gd1) =
      set (filled_orders gd) \<union>
      {info \<in> set (placed_orders gd). reports_filled c (gateway s) (gr_symbol gd) info}"
    by (simp add: gd1_def add_def add_filled_set)
  have idem: "add (filled_orders gd1) (placed_orders gd) = filled_orders gd1"
    unfolding add_def by (rule add_filled_idem) (use setf in blast)
  have reg1: "active_grids s1 grid_id = Some gd1" and g1: "gateway s1 = gateway s"
    by (simp_all add: s1_def)
  have "poll_orders c (gr_symbol gd1) (placed_orders gd1) (filled_orders gd1, 0, 0, 0, s1) =
      (filled_orders gd1, n_a, n_f, n_c, s1)"
    using any [OF g1, of "filled_orders gd1"] idem by (simp add: gd1_def)
  then have two: "get_grid_status c grid_id s1 = (Inr rep, s1)"
    by (simp add: get_grid_status_def reg1 rep_def) (simp add: s1_def gd1_def)
  have dist: "distinct (filled_orders gd) \<longrightarrow> distinct (filled_orders gd1)"
    by (simp add: gd1_def add_def add_filled_distinct)
  show ?thesis
    using one two reg1 setf dist by blast
qed

text \<open>Order 1 of the simulated bot is reported filled, order 2 is not.\<close>

theorem grid_status_idempotent_witness:
  "map oi_grid_level (filled_orders (the (active_grids
      (snd (get_grid_status sim_client ''GRID_BTCUSDT_1700000000''
         (snd (get_grid_status sim_client ''GRID_BTCUSDT_1700000000''
            (sim_grid_system [] [1])))))
      ''GRID_BTCUSDT_1700000000''))) = [1] \<and>
   get_grid_status sim_client ''GRID_BTCUSDT_1700000000''
     (snd (get_grid_status sim_client ''GRID_BTCUSDT_1700000000'' (sim_grid_system [] [1]))) =
   get_grid_status sim_client ''GRID_BTCUSDT_1700000000'' (sim_grid_system [] [1])"
proof -
  have quiet: "\<forall>g symbol oid. snd (futures_get_order sim_client g symbol oid) = g"
    by (simp add: sim_client_def sim_get_order_def)
  have reg: "active_grids (sim_grid_system [] [1]) ''GRID_BTCUSDT_1700000000'' = Some sim_grid"
    by (simp add: sim_grid_system_def)
  have first: "map oi_grid_level (filled_orders (the (active_grids
      (snd (get_grid_status sim_client ''GRID_BTCUSDT_1700000000'' (sim_grid_system [] [1])))
      ''GRID_BTCUSDT_1700000000''))) = [1]"
    by (simp add: get_grid_status_def get_order_status_def sim_defs)
  from grid_status_idempotent [OF quiet reg] obtain rep s1 where
    "get_grid_status sim_client ''GRID_BTCUSDT_1700000000'' (sim_grid_system [] [1]) = (Inr rep, s1)"
    "get_grid_status sim_client ''GRID_BTCUSDT_1700000000'' s1 = (Inr rep, s1)"
    by blast
  with first show ?thesis
    by simp
qed

section \<open>TWAP: the slicing loop\<close>

text \<open>The two lists of an order only grow, and iteration \<open>i\<close> adds entries for slice \<open>i + 1\<close> only.\<close>

lemma slices_between_refl: "lo \<le> hi \<Longrightarrow> slices_between lo hi twap twap"
  by (simp add: slices_between_def)

lemma slices_between_trans:
  assumes "slices_between lo mid a b" and "slices_between mid hi b c" and "lo \<le> mid" and "mid \<le> hi"
  shows "slices_between lo hi a c"
proof -
  from assms(1) obtain xs fs where 1:
    "executed_orders b = executed_orders a @ xs" "failed_orders b = failed_orders a @ fs"
    "\<forall>x\<in>set xs. lo < ex_slice_num x \<and> ex_slice_num x \<le> mid"
    "\<forall>f\<in>set fs. lo < fs_slice_num f \<and> fs_slice_num f \<le> mid"
    unfolding slices_between_def by blast
  from assms(2) obtain ys gs where 2:
    "executed_orders c = executed_orders b @ ys" "failed_orders c = failed_orders b @ gs"
    "\<forall>x\<in>set ys. mid < ex_slice_num x \<and> ex_slice_num x \<le> hi"
    "\<forall>f\<in>set gs. mid < fs_slice_num f \<and> fs_slice_num f \<le> hi"
    unfolding slices_between_def by blast
  have "executed_orders c = executed_orders a @ (xs @ ys)"
    "failed_orders c = failed_orders a @ (fs @ gs)"
    using 1 2 by simp_all
  moreover have "\<forall>x\<in>set (xs @ ys). lo < ex_slice_num x \<and> ex_slice_num x \<le> hi"
    using 1(3) 2(3) assms(3,4) by fastforce
  moreover have "\<forall>f\<in>set (fs @ gs). lo < fs_slice_num f \<and> fs_slice_num f \<le> hi"
    using 1(4) 2(4) assms(3,4) by fastforce
  ultimately show ?thesis
    using assms(1,2) unfolding slices_between_def by (metis (no_types, lifting))
qed

lemma twap_slice_between:
  "slices_between (int i) (int i + 1) twap (fst (loop_state (twap_slice rnd c ext i (twap, w))))"
  by (auto simp: twap_slice_def slices_between_def mark_canceled_def Let_def
      split: prod.splits sum.splits)

lemma twap_iter_between:
  assumes "twap_iter rnd c ext k st = Running (twap, w)" and "k \<le> m"
  shows "slices_between (int k) (int m) twap (fst (loop_state (twap_iter rnd c ext m st)))"
  using assms(2)
proof (induction m rule: dec_induct)
  case base
  show ?case by (simp add: assms(1) slices_between_refl)
next
  case (step j)
  show ?case
  proof (cases "twap_iter rnd c ext j st")
    case (Running st')
    obtain twap' w' where st': "st' = (twap', w')" by (cases st')
    have ih: "slices_between (int k) (int j) twap twap'"
      using step.IH Running st' by simp
    have "slices_between (int k) (int j + 1) twap
        (fst (loop_state (twap_slice rnd c ext j (twap', w'))))"
      by (rule slices_between_trans [OF ih twap_slice_between]) (use step.hyps in simp_all)
    then show ?thesis
      using Running st' by (simp add: add.commute)
  next
    case (Broken st')
    have ih: "slices_between (int k) (int j) twap (fst st')"
      using step.IH Broken by simp
    have "slices_between (int k) (int j + 1) twap (fst st')"
      by (rule slices_between_trans [OF ih slices_between_refl]) (use step.hyps in simp_all)
    then show ?thesis
      using Broken by (simp add: add.commute)
  qed
qed



lemma twap_slice_attempt:
  assumes "\<not> ext i" and "tw_status twap = ''ACTIVE''" and "0 < slice_qty twap i"
  shows "\<exists>twap' w'. twap_slice rnd c ext i (twap, w) = Running (twap', w') \<and>
     ((\<exists>x\<in>set (executed_orders twap'). ex_slice_num x = int i + 1) \<or>
      (\<exists>f\<in>set (failed_orders twap'). fs_slice_num f = int i + 1))"
  using assms by (auto simp: twap_slice_def Let_def split: prod.splits sum.splits)

lemma execute_twap_slices_eq:
  assumes "active_twap_orders s twap_id = Some twap0"
    and "loop_state (twap_iter rnd c ext (nat (num_slices twap0)) (twap0, s)) = (twap, s1)"
  shows "execute_twap_slices rnd c ext twap_id s =
     (Inr (), s1\<lparr>active_twap_orders := (active_twap_orders s1)(twap_id \<mapsto>
                   twap\<lparr>tw_status := ''COMPLETED'', end_time := clock s1\<rparr>)\<rparr>)"
  using assms by (simp add: execute_twap_slices_def)


lemma twap_slice_outcome:
  "(\<exists>twap' w'. twap_slice rnd c ext i (twap, w) = Broken (twap', w') \<and>
      executed_orders twap' = executed_orders twap \<and> failed_orders twap' = failed_orders twap \<and>
      remaining_quantity twap' = remaining_quantity twap) \<or>
   (\<exists>order w1. \<not> ext i \<and> tw_status twap = ''ACTIVE'' \<and> 0 < slice_qty twap i \<and>
      place_slice c twap (slice_qty twap i) w = (Inr order, w1) \<and>
      twap_slice rnd c ext i (twap, w) =
        Running (twap\<lparr>executed_orders := executed_orders twap @
                   [\<lparr>ex_slice_num = int i + 1, ex_quantity = slice_qty twap i,
                     ex_order = order, ex_timestamp = clock w1\<rparr>],
                  remaining_quantity := fsub rnd (remaining_quantity twap) (slice_qty twap i)\<rparr>,
                 wait_next twap i w1)) \<or>
   (\<exists>e w1. \<not> ext i \<and> tw_status twap = ''ACTIVE'' \<and> 0 < slice_qty twap i \<and>
      place_slice c twap (slice_qty twap i) w = (Inl e, w1) \<and>
      twap_slice rnd c ext i (twap, w) =
        Running (twap\<lparr>failed_orders := failed_orders twap @
                   [\<lparr>fs_slice_num = int i + 1, fs_quantity = slice_qty twap i,
                     fs_error = str_exn e, fs_timestamp = clock w1\<rparr>]\<rparr>,
                 wait_next twap i w1))"
  by (cases "place_slice c twap (slice_qty twap i) w"; cases "fst (place_slice c twap (slice_qty twap i) w)")
    (auto simp: twap_slice_def Let_def wait_next_def mark_canceled_def)

text \<open>
  The state after \<open>k\<close> iterations when the loop starts with no executed slice:
  what remains is the total less the executed quantities, subtracted in order; and if all
  \<open>k\<close> slices were executed, the loop is still running and the quantities are the
  nominal ones, the last slice of the plan taking what remained.
\<close>

lemma twap_iter_executed:
  assumes zero: "rnd 0 = 0" and fresh: "executed_orders twap0 = []"
    and k: "k \<le> nat (num_slices twap0)"
  shows "\<exists>twap w. loop_state (twap_iter rnd c ext k (twap0, w0)) = (twap, w) \<and>
     num_slices twap = num_slices twap0 \<and> slice_quantity twap = slice_quantity twap0 \<and>
     remaining_quantity twap =
       foldl (fsub rnd) (remaining_quantity twap0) (map ex_quantity (executed_orders twap)) \<and>
     length (executed_orders twap) \<le> k \<and>
     (length (executed_orders twap) = k \<longrightarrow>
        twap_iter rnd c ext k (twap0, w0) = Running (twap, w) \<and>
        (k < nat (num_slices twap0) \<longrightarrow>
           map ex_quantity (executed_orders twap) = replicate k (slice_quantity twap0)) \<and>
        (0 < k \<and> k = nat (num_slices twap0) \<longrightarrow>
           map ex_quantity (executed_orders twap) =
             replicate (k - 1) (slice_quantity twap0) @
             [foldl (fsub rnd) (remaining_quantity twap0) (replicate (k - 1) (slice_quantity twap0))] \<and>
           remaining_quantity twap = 0))"
  using k
proof (induction k)
  case 0
  show ?case using fresh by simp
next
  case (Suc k)
  then obtain twap w where ih:
    "loop_state (twap_iter rnd c ext k (twap0, w0)) = (twap, w)"
    "num_slices twap = num_slices twap0" "slice_quantity twap = slice_quantity twap0"
    "remaining_quantity twap =
       foldl (fsub rnd) (remaining_quantity twap0) (map ex_quantity (executed_orders twap))"
    "length (executed_orders twap) \<le> k"
    "length (executed_orders twap) = k \<Longrightarrow>
        twap_iter rnd c ext k (twap0, w0) = Running (twap, w) \<and>
        map ex_quantity (executed_orders twap) = replicate k (slice_quantity twap0)"
    by fastforce
  show ?case
  proof (cases "twap_iter rnd c ext k (twap0, w0)")
    case (Broken st)
    with ih show ?thesis by auto
  next
    case (Running st)
    with ih(1) have st: "st = (twap, w)" by simp
    have it: "twap_iter rnd c ext (Suc k) (twap0, w0) = twap_slice rnd c ext k (twap, w)"
      using Running st by simp
    consider (broken) twap' w' where "twap_slice rnd c ext k (twap, w) = Broken (twap', w')"
        "executed_orders twap' = executed_orders twap"
        "remaining_quantity twap' = remaining_quantity twap"
      | (executed) order w1 where
        "twap_slice rnd c ext k (twap, w) =
          Running (twap\<lparr>executed_orders := executed_orders twap @
                   [\<lparr>ex_slice_num = int k + 1, ex_quantity = slice_qty twap k,
                     ex_order = order, ex_timestamp = clock w1\<rparr>],
                  remaining_quantity := fsub rnd (remaining_quantity twap) (slice_qty twap k)\<rparr>,
                 wait_next twap k w1)"
      | (failed) e w1 where
        "twap_slice rnd c ext k (twap, w) =
          Running (twap\<lparr>failed_orders := failed_orders twap @
                   [\<lparr>fs_slice_num = int k + 1, fs_quantity = slice_qty twap k,
                     fs_error = str_exn e, fs_timestamp = clock w1\<rparr>]\<rparr>,
                 wait_next twap k w1)"
      using twap_slice_outcome [of rnd c ext k twap w] by blast
    then show ?thesis
    proof cases
      case broken
      have "slices_between (int k) (int k + 1) twap twap'"
        using twap_slice_between [of k twap rnd c ext w] broken(1) by simp
      then have "num_slices twap' = num_slices twap" "slice_quantity twap' = slice_quantity twap"
        by (simp_all add: slices_between_def)
      with broken ih show ?thesis
        unfolding it by simp
    next
      case failed
      with ih show ?thesis
        unfolding it by simp
    next
      case executed
      define twap' where "twap' = twap\<lparr>executed_orders := executed_orders twap @
                   [\<lparr>ex_slice_num = int k + 1, ex_quantity = slice_qty twap k,
                     ex_order = order, ex_timestamp = clock w1\<rparr>],
                  remaining_quantity := fsub rnd (remaining_quantity twap) (slice_qty twap k)\<rparr>"
      have run: "twap_iter rnd c ext (Suc k) (twap0, w0) = Running (twap', wait_next twap k w1)"
        unfolding it twap'_def by (rule executed)
      have static: "num_slices twap' = num_slices twap0" "slice_quantity twap' = slice_quantity twap0"
        using ih(2,3) by (simp_all add: twap'_def)
      have qs: "map ex_quantity (executed_orders twap') =
          map ex_quantity (executed_orders twap) @ [slice_qty twap k]"
        by (simp add: twap'_def)
      have rem: "remaining_quantity twap' =
          foldl (fsub rnd) (remaining_quantity twap0) (map ex_quantity (executed_orders twap'))"
        unfolding qs foldl_append by (simp add: twap'_def ih(4))
      have len: "length (executed_orders twap') = Suc (length (executed_orders twap))"
        by (simp add: twap'_def)
      have full: "(Suc k < nat (num_slices twap0) \<longrightarrow>
           map ex_quantity (executed_orders twap') = replicate (Suc k) (slice_quantity twap0)) \<and>
        (0 < Suc k \<and> Suc k = nat (num_slices twap0) \<longrightarrow>
           map ex_quantity (executed_orders twap') =
             replicate (Suc k - 1) (slice_quantity twap0) @
             [foldl (fsub rnd) (remaining_quantity twap0)
                (replicate (Suc k - 1) (slice_quantity twap0))] \<and>
           remaining_quantity twap' = 0)"
        if "length (executed_orders twap) = k"
      proof -
        note all = ih(6) [OF that]
        have nominal: "map ex_quantity (executed_orders twap) = replicate k (slice_quantity twap0)"
          using all by simp
        show ?thesis
        proof (cases "Suc k < nat (num_slices twap0)")
          case True
          then have "slice_qty twap k = slice_quantity twap0"
            using ih(2,3) by (auto simp: slice_qty_def)
          with True show ?thesis
            unfolding qs nominal by (simp add: replicate_append_same)
        next
          case False
          with Suc.prems have last: "Suc k = nat (num_slices twap0)" by simp
          then have q: "slice_qty twap k = remaining_quantity twap"
            using ih(2) by (auto simp: slice_qty_def)
          have r: "remaining_quantity twap =
              foldl (fsub rnd) (remaining_quantity twap0) (replicate k (slice_quantity twap0))"
            using ih(4) nominal by simp
          have "remaining_quantity twap' = 0"
            using zero by (simp add: twap'_def q fsub_def)
          with last [symmetric] show ?thesis
            unfolding qs nominal q r by simp
        qed
      qed
      show ?thesis
        using run static rem len ih(5) full
        by (intro exI [of _ twap'] exI [of _ "wait_next twap k w1"]) auto
    qed
  qed
qed

lemma twap_run_all:
  assumes zero: "rnd 0 = 0" and nc: "\<forall>i. \<not> ext i"
    and x: "0 < slice_quantity twap0"
    and last: "0 < foldl (fsub rnd) (remaining_quantity twap0)
                 (replicate (nat (num_slices twap0) - 1) (slice_quantity twap0))"
    and init: "tw_status twap0 = ''ACTIVE''" "executed_orders twap0 = []"
      "failed_orders twap0 = []"
    and k: "k \<le> nat (num_slices twap0)"
  shows "\<exists>twap w. loop_state (twap_iter rnd c ext k (twap0, w0)) = (twap, w) \<and>
     (failed_orders twap = [] \<longrightarrow>
        length (executed_orders twap) = k \<and> tw_status twap = ''ACTIVE'')"
  using k
proof (induction k)
  case 0
  show ?case using init by simp
next
  case (Suc k)
  then obtain twap w where ih:
    "loop_state (twap_iter rnd c ext k (twap0, w0)) = (twap, w)"
    "failed_orders twap = [] \<Longrightarrow> length (executed_orders twap) = k \<and> tw_status twap = ''ACTIVE''"
    by fastforce
  have kN: "k \<le> nat (num_slices twap0)" "k < nat (num_slices twap0)"
    using Suc.prems by simp_all
  from twap_iter_executed [where rnd = rnd and ?twap0.0 = twap0 and k = k and c = c
      and ext = ext and ?w0.0 = w0, OF zero init(2) kN(1)] ih(1)
  have ex: "num_slices twap = num_slices twap0" "slice_quantity twap = slice_quantity twap0"
    "remaining_quantity twap =
       foldl (fsub rnd) (remaining_quantity twap0) (map ex_quantity (executed_orders twap))"
    "length (executed_orders twap) = k \<Longrightarrow>
       twap_iter rnd c ext k (twap0, w0) = Running (twap, w) \<and>
       map ex_quantity (executed_orders twap) = replicate k (slice_quantity twap0)"
    using kN(2) by auto
  show ?case
  proof (cases "failed_orders twap = []")
    case False
    have "slices_between (int k) (int k + 1) twap
        (fst (loop_state (twap_slice rnd c ext k (twap, w))))"
      by (rule twap_slice_between)
    then have grow: "failed_orders (fst (loop_state (twap_slice rnd c ext k (twap, w)))) \<noteq> []"
      using False by (auto simp: slices_between_def)
    show ?thesis
    proof (cases "twap_iter rnd c ext k (twap0, w0)")
      case (Broken st)
      with ih(1) False show ?thesis by (cases st) auto
    next
      case (Running st)
      with ih(1) have st: "st = (twap, w)" by simp
      obtain t1 w1 where l: "loop_state (twap_slice rnd c ext k (twap, w)) = (t1, w1)"
        by (cases "loop_state (twap_slice rnd c ext k (twap, w))") auto
      with grow have "failed_orders t1 \<noteq> []" by simp
      then show ?thesis
        using Running st l by simp
    qed
  next
    case True
    from ih(2) [OF True] have len: "length (executed_orders twap) = k"
      and act: "tw_status twap = ''ACTIVE''"
      by simp_all
    from ex(4) [OF len] have run: "twap_iter rnd c ext k (twap0, w0) = Running (twap, w)"
      and qs: "map ex_quantity (executed_orders twap) = replicate k (slice_quantity twap0)"
      by simp_all
    have it: "twap_iter rnd c ext (Suc k) (twap0, w0) = twap_slice rnd c ext k (twap, w)"
      using run by simp
    have pos: "0 < slice_qty twap k"
    proof (cases "int k = num_slices twap0 - 1")
      case True
      then have "k = nat (num_slices twap0) - 1" by linarith
      then show ?thesis
        using last True by (simp add: slice_qty_def ex(1) ex(3) qs)
    next
      case False
      then show ?thesis
        using x by (simp add: slice_qty_def ex(1,2))
    qed
    have nk: "\<not> ext k" using nc by simp
    from twap_slice_attempt [where ext = ext and i = k and twap = twap and rnd = rnd
        and c = c and w = w, OF nk act pos]
    obtain t1 w1 where r: "twap_slice rnd c ext k (twap, w) = Running (t1, w1)"
      by auto
    from twap_slice_outcome [of rnd c ext k twap w] show ?thesis
    proof (elim disjE exE conjE)
      fix twap' w'
      assume "twap_slice rnd c ext k (twap, w) = Broken (twap', w')"
      with r show ?thesis by simp
    next
      fix order w2
      assume o: "twap_slice rnd c ext k (twap, w) =
          Running (twap\<lparr>executed_orders := executed_orders twap @
                     [\<lparr>ex_slice_num = int k + 1, ex_quantity = slice_qty twap k,
                       ex_order = order, ex_timestamp = clock w2\<rparr>],
                    remaining_quantity := fsub rnd (remaining_quantity twap) (slice_qty twap k)\<rparr>,
                   wait_next twap k w2)"
      show ?thesis
        unfolding it o using len act by simp
    next
      fix e w2
      assume o: "twap_slice rnd c ext k (twap, w) =
          Running (twap\<lparr>failed_orders := failed_orders twap @
                     [\<lparr>fs_slice_num = int k + 1, fs_quantity = slice_qty twap k,
                       fs_error = str_exn e, fs_timestamp = clock w2\<rparr>]\<rparr>,
                   wait_next twap k w2)"
      show ?thesis
        unfolding it o by simp
    qed
  qed
qed

text \<open>What \<^verbatim>\<open>execute_twap_order\<close> has done when it returns a result.\<close>

lemma execute_twap_order_ok:
  assumes "execute_twap_order rnd c ext symbol side q d ns ot p tif s = (Inr r, s')"
  shows "\<exists>s2 twap0.
     execute_twap_slices rnd c ext (tr_twap_id r) s2 = (Inr (), s') \<and>
     active_twap_orders s2 (tr_twap_id r) = Some twap0 \<and>
     tr_twap_id r = ''TWAP_'' @ upper symbol @ ''_'' @ str_int (py_int (clock s)) \<and>
     tr_total_quantity r = q \<and> 0 < q \<and> 0 < tr_num_slices r \<and>
     tw_status twap0 = ''ACTIVE'' \<and> num_slices twap0 = tr_num_slices r \<and>
     slice_quantity twap0 = rnd (q / of_int (tr_num_slices r)) \<and>
     remaining_quantity twap0 = q \<and> total_quantity twap0 = q \<and>
     executed_orders twap0 = [] \<and> failed_orders twap0 = []"
  using assms
  by (auto simp: execute_twap_order_def validators truediv_def Let_def
      split: if_splits sum.splits prod.splits option.splits)

text \<open>Evaluation of the loop on concrete orders; small numbers are binary64 floats.\<close>

lemma twap_iter_numeral:
  "twap_iter rnd c ext (numeral v) st =
     (case twap_iter rnd c ext (pred_numeral v) st of
        Running st' \<Rightarrow> twap_slice rnd c ext (pred_numeral v) st'
      | Broken st' \<Rightarrow> Broken st')"
  by (simp add: numeral_eq_Suc)

lemmas twap_eval =
  execute_twap_slices_def twap_iter_numeral twap_slice_def slice_qty_def place_slice_def
  place_market_order_def place_limit_order_def validators create_order_def wait_next_def
  sleep_def mark_canceled_def fsub_def Let_def

lemmas twap_order_eval = execute_twap_order_def twap_eval sim_defs truediv_def

lemma b64_small:
  "binary64 0 = 0" "binary64 1 = 1" "binary64 2 = 2" "binary64 3 = 3" "binary64 60 = 60"
  by (simp_all add: b64)

section \<open>TWAP: the status after the loop\<close>

lemma twap_iter_broken:
  assumes "twap_iter rnd c ext m st = Broken b" and "m \<le> m'"
  shows "twap_iter rnd c ext m' st = Broken b"
  using assms(2) by (induction m' rule: dec_induct) (simp_all add: assms(1))

lemma twap_slice_canceled:
  "ext k \<Longrightarrow> twap_slice rnd c ext k (twap, w) = Broken (mark_canceled (clock w) twap, w)"
  by (simp add: twap_slice_def mark_canceled_def)

lemma twap_iter_from_start:
  "slices_between 0 (int m) twap0 (fst (loop_state (twap_iter rnd c ext m (twap0, s))))"
  using twap_iter_between [of rnd c ext 0 "(twap0, s)" twap0 s m] by simp

text \<open>
  A cancellation seen by the status check of slice \<open>k\<close> ends the loop: the lists hold
  nothing for that slice or a later one.
\<close>

lemma twap_cancel_stops:
  assumes "ext k" and "k < N"
  shows "slices_between 0 (int k) twap0 (fst (loop_state (twap_iter rnd c ext N (twap0, s))))"
proof (cases "twap_iter rnd c ext k (twap0, s)")
  case (Running st)
  obtain twap w where st: "st = (twap, w)" by (cases st)
  have "twap_iter rnd c ext (Suc k) (twap0, s) = Broken (mark_canceled (clock w) twap, w)"
    using Running st twap_slice_canceled [where ext = ext and k = k, OF assms(1)] by simp
  from twap_iter_broken [OF this, of N] assms(2)
  have N: "twap_iter rnd c ext N (twap0, s) = Broken (mark_canceled (clock w) twap, w)"
    by simp
  have "slices_between 0 (int k) twap0 twap"
    using twap_iter_from_start [of k twap0 rnd c ext s] Running st by simp
  then show ?thesis
    unfolding N by (simp add: slices_between_def mark_canceled_def)
next
  case (Broken b)
  from twap_iter_broken [OF this, of N] assms(2)
  have N: "twap_iter rnd c ext N (twap0, s) = Broken b"
    by simp
  show ?thesis
    using twap_iter_from_start [of k twap0 rnd c ext s] Broken unfolding N by simp
qed

text \<open>
  Claim C1. The two lines after the loop of \<^verbatim>\<open>_execute_twap_slices\<close> run however the
  loop ended: for every registered order the call returns, and the order then has status
  COMPLETED and the end time of that moment. This includes the exit through a
  cancellation: when \<^verbatim>\<open>cancel_twap_order\<close> has set CANCELED before the status check of
  slice \<open>k\<close>, the loop stops there (the lists hold no entry for that slice or a later
  one), and the status CANCELED is overwritten with COMPLETED.
\<close>

theorem twap_exit_marks_completed:
  assumes reg: "active_twap_orders s twap_id = Some twap0"
    and nonneg: "0 \<le> slice_interval twap0"
  shows "\<exists>s' twap. execute_twap_slices rnd c ext twap_id s = (Inr (), s') \<and>
           active_twap_orders s' twap_id = Some twap \<and>
           tw_status twap = ''COMPLETED'' \<and> end_time twap = clock s' \<and>
           (\<forall>k<nat (num_slices twap0). ext k \<longrightarrow>
              (\<forall>x\<in>set (executed_orders twap).
                 x \<in> set (executed_orders twap0) \<or> ex_slice_num x \<le> int k) \<and>
              (\<forall>f\<in>set (failed_orders twap).
                 f \<in> set (failed_orders twap0) \<or> fs_slice_num f \<le> int k))"
proof -
  obtain lp s1 where
    ls: "loop_state (twap_iter rnd c ext (nat (num_slices twap0)) (twap0, s)) = (lp, s1)"
    by (cases "loop_state (twap_iter rnd c ext (nat (num_slices twap0)) (twap0, s))") auto
  define final where "final = lp\<lparr>tw_status := ''COMPLETED'', end_time := clock s1\<rparr>"
  define s' where "s' = s1\<lparr>active_twap_orders := (active_twap_orders s1)(twap_id \<mapsto> final)\<rparr>"
  have run: "execute_twap_slices rnd c ext twap_id s = (Inr (), s')"
    using execute_twap_slices_eq [OF reg ls] by (simp add: s'_def final_def)
  have stopped: "(\<forall>x\<in>set (executed_orders final).
                 x \<in> set (executed_orders twap0) \<or> ex_slice_num x \<le> int k) \<and>
              (\<forall>f\<in>set (failed_orders final).
                 f \<in> set (failed_orders twap0) \<or> fs_slice_num f \<le> int k)"
    if "k < nat (num_slices twap0)" "ext k" for k
  proof -
    from twap_cancel_stops [where ext = ext and k = k and N = "nat (num_slices twap0)"
        and ?twap0.0 = twap0 and rnd = rnd and c = c and s = s, OF that(2,1)] ls
    have "slices_between 0 (int k) twap0 lp"
      by simp
    then show ?thesis
      by (auto simp: slices_between_def final_def)
  qed
  show ?thesis
    by (rule exI [of _ s'], rule exI [of _ final])
      (use run stopped in \<open>simp add: s'_def final_def\<close>)
qed

text \<open>
  Three slices of one unit on the simulated exchange; a cancellation lands while the loop
  waits after the first slice. One slice is executed, two units remain, and the status
  of the cancelled order reads COMPLETED.
\<close>

theorem twap_exit_marks_completed_witness:
  "active_twap_orders
     (snd (execute_twap_slices binary64 sim_client (\<lambda>slice_num. slice_num = 1)
             ''TWAP_BTCUSDT_1700000000'' (sim_twap_system [])))
     ''TWAP_BTCUSDT_1700000000'' =
   Some (sim_twap
     \<lparr>remaining_quantity := 2, end_time := 1700000060, tw_status := ''COMPLETED'',
      executed_orders :=
        [\<lparr>ex_slice_num = 1, ex_quantity = 1,
          ex_order = \<lparr>orderId = 1, order_status = ''NEW''\<rparr>, ex_timestamp = 1700000000\<rparr>]\<rparr>)"
proof -
  have reg: "active_twap_orders (sim_twap_system []) ''TWAP_BTCUSDT_1700000000'' = Some sim_twap"
    by (simp add: sim_twap_system_def)
  have nonneg: "0 \<le> slice_interval sim_twap"
    by (simp add: sim_twap_def)
  show ?thesis
    using twap_exit_marks_completed [OF reg nonneg, of binary64 sim_client
        "\<lambda>slice_num. slice_num = 1"]
    by (simp add: twap_eval sim_defs b64_small)
qed

section \<open>TWAP: a failed slice\<close>



section \<open>TWAP: the executed quantities\<close>

text \<open>
  Claim C4, as amended. After \<^verbatim>\<open>execute_twap_order\<close> has returned, what remains is the
  total less the executed quantities, subtracted one by one in floating point. If all
  \<open>n\<close> slices were executed, the first \<open>n - 1\<close> quantities are the nominal slice
  \<open>rnd (q / n)\<close>, the last one is what the \<open>n - 1\<close> subtractions left of the total,
  and \<^verbatim>\<open>remaining_quantity\<close> is 0; the executed quantities sum to the total exactly
  when that remainder is the exact difference, that is, when the subtractions were not
  rounded. All \<open>n\<close> slices are executed when no cancellation lands, no placement fails,
  and the nominal slice and that remainder are positive.
\<close>

theorem twap_quantity_conservation:
  assumes run: "execute_twap_order rnd c ext symbol side q d ns ot p tif s = (Inr r, s')"
    and zero: "rnd 0 = 0"
  shows "\<exists>final. active_twap_orders s' (tr_twap_id r) = Some final \<and>
     remaining_quantity final = foldl (fsub rnd) q (map ex_quantity (executed_orders final)) \<and>
     (int (length (executed_orders final)) = tr_num_slices r \<longrightarrow>
        map ex_quantity (executed_orders final) =
          replicate (nat (tr_num_slices r) - 1) (rnd (q / of_int (tr_num_slices r))) @
          [foldl (fsub rnd) q
             (replicate (nat (tr_num_slices r) - 1) (rnd (q / of_int (tr_num_slices r))))] \<and>
        remaining_quantity final = 0 \<and>
        (sum_list (map ex_quantity (executed_orders final)) = q \<longleftrightarrow>
           foldl (fsub rnd) q
             (replicate (nat (tr_num_slices r) - 1) (rnd (q / of_int (tr_num_slices r)))) =
           q - of_nat (nat (tr_num_slices r) - 1) * rnd (q / of_int (tr_num_slices r)))) \<and>
     ((\<forall>i. \<not> ext i) \<and> failed_orders final = [] \<and>
      0 < rnd (q / of_int (tr_num_slices r)) \<and>
      0 < foldl (fsub rnd) q
            (replicate (nat (tr_num_slices r) - 1) (rnd (q / of_int (tr_num_slices r)))) \<longrightarrow>
        int (length (executed_orders final)) = tr_num_slices r)"
proof -
  define n where "n = tr_num_slices r"
  define x where "x = rnd (q / of_int n)"
  define L where "L = foldl (fsub rnd) q (replicate (nat n - 1) x)"
  from execute_twap_order_ok [OF run] obtain s2 twap0 where
    slices: "execute_twap_slices rnd c ext (tr_twap_id r) s2 = (Inr (), s')"
    and reg: "active_twap_orders s2 (tr_twap_id r) = Some twap0"
    and q: "0 < q" and n: "0 < n"
    and init: "tw_status twap0 = ''ACTIVE''" "num_slices twap0 = n" "slice_quantity twap0 = x"
      "remaining_quantity twap0 = q" "executed_orders twap0 = []" "failed_orders twap0 = []"
    unfolding n_def x_def by blast
  have le: "nat n \<le> nat (num_slices twap0)"
    by (simp add: init)
  from twap_iter_executed [where rnd = rnd and ?twap0.0 = twap0 and k = "nat n" and c = c
      and ext = ext and ?w0.0 = s2, OF zero init(5) le] obtain twap w where
    ls: "loop_state (twap_iter rnd c ext (nat n) (twap0, s2)) = (twap, w)"
    and rem: "remaining_quantity twap = foldl (fsub rnd) q (map ex_quantity (executed_orders twap))"
    and full: "length (executed_orders twap) = nat n \<Longrightarrow>
        map ex_quantity (executed_orders twap) = replicate (nat n - 1) x @ [L] \<and>
        remaining_quantity twap = 0"
    using n by (auto simp: init L_def)
  define final where "final = twap\<lparr>tw_status := ''COMPLETED'', end_time := clock w\<rparr>"
  have s': "s' = w\<lparr>active_twap_orders := (active_twap_orders w)(tr_twap_id r \<mapsto> final)\<rparr>"
    using execute_twap_slices_eq [OF reg ls [folded init(2)]] slices by (simp add: final_def)
  have fin: "active_twap_orders s' (tr_twap_id r) = Some final"
    by (simp add: s')
  have same: "executed_orders final = executed_orders twap" "failed_orders final = failed_orders twap"
    "remaining_quantity final = remaining_quantity twap"
    by (simp_all add: final_def)
  have len: "length (executed_orders twap) = nat n"
    if "int (length (executed_orders final)) = n"
    using that n by (simp add: same)
  have p1: "remaining_quantity final =
      foldl (fsub rnd) q (map ex_quantity (executed_orders final))"
    using rem by (simp only: same)
  have p2: "int (length (executed_orders final)) = n \<longrightarrow>
      map ex_quantity (executed_orders final) = replicate (nat n - 1) x @ [L] \<and>
      remaining_quantity final = 0 \<and>
      (sum_list (map ex_quantity (executed_orders final)) = q \<longleftrightarrow>
         L = q - of_nat (nat n - 1) * x)"
  proof
    assume "int (length (executed_orders final)) = n"
    from full [OF len [OF this]]
    have m: "map ex_quantity (executed_orders final) = replicate (nat n - 1) x @ [L]"
      and z: "remaining_quantity final = 0"
      by (simp_all only: same)
    have "sum_list (map ex_quantity (executed_orders final)) = of_nat (nat n - 1) * x + L"
      unfolding m by (simp add: sum_list_replicate)
    then have "sum_list (map ex_quantity (executed_orders final)) = q \<longleftrightarrow>
        L = q - of_nat (nat n - 1) * x"
      by auto
    with m z show "map ex_quantity (executed_orders final) = replicate (nat n - 1) x @ [L] \<and>
      remaining_quantity final = 0 \<and>
      (sum_list (map ex_quantity (executed_orders final)) = q \<longleftrightarrow>
         L = q - of_nat (nat n - 1) * x)"
      by simp
  qed
  have p3: "(\<forall>i. \<not> ext i) \<and> failed_orders final = [] \<and> 0 < x \<and> 0 < L \<longrightarrow>
      int (length (executed_orders final)) = n"
  proof
    assume a: "(\<forall>i. \<not> ext i) \<and> failed_orders final = [] \<and> 0 < x \<and> 0 < L"
    then have nc: "\<forall>i. \<not> ext i" and nf: "failed_orders twap = []"
      and x: "0 < slice_quantity twap0"
      and l: "0 < foldl (fsub rnd) (remaining_quantity twap0)
                 (replicate (nat (num_slices twap0) - 1) (slice_quantity twap0))"
      by (simp_all add: same init L_def)
    from twap_run_all [where rnd = rnd and ext = ext and ?twap0.0 = twap0 and k = "nat n"
        and c = c and ?w0.0 = s2, OF zero nc x l init(1,5,6) le] ls nf
    have "length (executed_orders twap) = nat n"
      by auto
    then show "int (length (executed_orders final)) = n"
      using n by (simp add: same)
  qed
  show ?thesis
    unfolding n_def [symmetric] x_def [symmetric] L_def [symmetric]
    using fin p1 p2 p3 by blast
qed

text \<open>Three units in three slices on the simulated exchange: no operation is rounded.\<close>

theorem twap_quantity_conservation_witness:
  "map ex_quantity (executed_orders (the (active_twap_orders
       (snd (execute_twap_order binary64 sim_client (\<lambda>_. False) ''btcusdt'' ''buy'' 3 3 (Some 3)
               ''MARKET'' None ''GTC'' (sim_system [] [] 1700000000)))
       ''TWAP_BTCUSDT_1700000000''))) = [1, 1, 1] \<and>
   sum_list (map ex_quantity (executed_orders (the (active_twap_orders
       (snd (execute_twap_order binary64 sim_client (\<lambda>_. False) ''btcusdt'' ''buy'' 3 3 (Some 3)
               ''MARKET'' None ''GTC'' (sim_system [] [] 1700000000)))
       ''TWAP_BTCUSDT_1700000000'')))) = 3 \<and>
   remaining_quantity (the (active_twap_orders
       (snd (execute_twap_order binary64 sim_client (\<lambda>_. False) ''btcusdt'' ''buy'' 3 3 (Some 3)
               ''MARKET'' None ''GTC'' (sim_system [] [] 1700000000)))
       ''TWAP_BTCUSDT_1700000000'')) = 0"
proof -
  define run where "run = execute_twap_order binary64 sim_client (\<lambda>_. False) ''btcusdt'' ''buy''
    3 3 (Some 3) ''MARKET'' None ''GTC'' (sim_system [] [] 1700000000)"
  define r where "r = \<lparr>tr_twap_id = ''TWAP_BTCUSDT_1700000000'', tr_symbol = ''BTCUSDT'',
    tr_side = ''BUY'', tr_total_quantity = 3, tr_num_slices = 3, tr_duration_minutes = 3,
    tr_status = ''STARTED''\<rparr>"
  have "fst run = Inr r"
    by (simp add: run_def r_def twap_order_eval b64_small)
  then have ok: "execute_twap_order binary64 sim_client (\<lambda>_. False) ''btcusdt'' ''buy'' 3 3
      (Some 3) ''MARKET'' None ''GTC'' (sim_system [] [] 1700000000) = (Inr r, snd run)"
    by (simp add: run_def prod_eq_iff)
  have zero: "binary64 0 = 0"
    by (rule b64_small)
  have none_failed: "failed_orders (the (active_twap_orders (snd run) (tr_twap_id r))) = []"
    by (simp add: run_def r_def twap_order_eval b64_small)
  have x: "binary64 (3 / of_int (tr_num_slices r)) = 1"
    by (simp add: r_def b64_small)
  have L: "foldl (fsub binary64) 3 (replicate (nat (tr_num_slices r) - 1) 1) = 1"
    by (simp add: r_def fsub_def b64_small numeral_eq_Suc)
  from twap_quantity_conservation [OF ok zero, unfolded x L] obtain final where
    reg: "active_twap_orders (snd run) (tr_twap_id r) = Some final"
    and full: "int (length (executed_orders final)) = tr_num_slices r \<longrightarrow>
        map ex_quantity (executed_orders final) = replicate (nat (tr_num_slices r) - 1) 1 @ [1] \<and>
        remaining_quantity final = 0 \<and>
        (sum_list (map ex_quantity (executed_orders final)) = 3 \<longleftrightarrow>
           1 = 3 - of_nat (nat (tr_num_slices r) - 1) * (1::real))"
    and all: "(\<forall>i::nat. \<not> (\<lambda>_. False) i) \<and> failed_orders final = [] \<and> (0::real) < 1 \<and> (0::real) < 1 \<longrightarrow>
        int (length (executed_orders final)) = tr_num_slices r"
    by (elim exE conjE) (rule that)
  have len: "int (length (executed_orders final)) = tr_num_slices r"
    using all none_failed reg by simp
  from full len have "map ex_quantity (executed_orders final) = [1, 1, 1]"
    "remaining_quantity final = 0" "sum_list (map ex_quantity (executed_orders final)) = 3"
    by (simp_all add: r_def numeral_eq_Suc)
  with reg show ?thesis
    by (simp add: run_def r_def)
qed

text \<open>Four slices on a simulated exchange that accepts every order, for any rounding.\<close>

lemma sim_twap_four:
  assumes "0 < q" and "0 < a" and "0 < r3" and "rnd 0 = 0"
    and "rnd (q / 4) = a" and "rnd (q - a) = r1" and "rnd (r1 - a) = r2" and "rnd (r2 - a) = r3"
  shows "failed_orders (the (active_twap_orders
       (snd (execute_twap_order rnd sim_client (\<lambda>_. False) ''BTCUSDT'' ''BUY'' q 4 (Some 4)
               ''MARKET'' None ''GTC'' (sim_system [] [] 1700000000)))
       ''TWAP_BTCUSDT_1700000000'')) = [] \<and>
     map ex_quantity (executed_orders (the (active_twap_orders
       (snd (execute_twap_order rnd sim_client (\<lambda>_. False) ''BTCUSDT'' ''BUY'' q 4 (Some 4)
               ''MARKET'' None ''GTC'' (sim_system [] [] 1700000000)))
       ''TWAP_BTCUSDT_1700000000''))) = [a, a, a, r3] \<and>
     remaining_quantity (the (active_twap_orders
       (snd (execute_twap_order rnd sim_client (\<lambda>_. False) ''BTCUSDT'' ''BUY'' q 4 (Some 4)
               ''MARKET'' None ''GTC'' (sim_system [] [] 1700000000)))
       ''TWAP_BTCUSDT_1700000000'')) = 0"
  using assms by (simp add: twap_order_eval)

lemma tenth_is_float: "binary64 (1 / 10) = tenth"
  by (simp add: tenth_def b64)

lemma tenth_slices:
  "binary64 (tenth / 4) = 3602879701896397 / 2 ^ 57"
  "binary64 (tenth - 3602879701896397 / 2 ^ 57) = 1351079888211149 / 2 ^ 54"
  "binary64 (1351079888211149 / 2 ^ 54 - 3602879701896397 / 2 ^ 57) = 7205759403792795 / 2 ^ 57"
  "binary64 (7205759403792795 / 2 ^ 57 - 3602879701896397 / 2 ^ 57) = 1801439850948199 / 2 ^ 56"
  by (simp_all add: tenth_def b64)

lemma tenth_sum:
  "foldl (fadd binary64) 0
     [3602879701896397 / 2 ^ 57, 3602879701896397 / 2 ^ 57, 3602879701896397 / 2 ^ 57,
      1801439850948199 / 2 ^ 56] = 7205759403792795 / 2 ^ 56"
  by (simp add: fadd_def b64)

text \<open>
  The claim as stated fails in binary64: the float 0.1 in four slices, every placement
  accepted. The executed quantities are three times the float 0.025 and once the float
  0.025000000000000005; their sum is the total plus \<open>2 ^ -57\<close>, and added from left to
  right in floating point they give the next float above the total.
\<close>

theorem twap_float_sum_counterexample:
  "failed_orders (the (active_twap_orders
       (snd (execute_twap_order binary64 sim_client (\<lambda>_. False) ''BTCUSDT'' ''BUY'' tenth 4
               (Some 4) ''MARKET'' None ''GTC'' (sim_system [] [] 1700000000)))
       ''TWAP_BTCUSDT_1700000000'')) = [] \<and>
   map ex_quantity (executed_orders (the (active_twap_orders
       (snd (execute_twap_order binary64 sim_client (\<lambda>_. False) ''BTCUSDT'' ''BUY'' tenth 4
               (Some 4) ''MARKET'' None ''GTC'' (sim_system [] [] 1700000000)))
       ''TWAP_BTCUSDT_1700000000''))) =
     [3602879701896397 / 2 ^ 57, 3602879701896397 / 2 ^ 57, 3602879701896397 / 2 ^ 57,
      1801439850948199 / 2 ^ 56] \<and>
   sum_list (map ex_quantity (executed_orders (the (active_twap_orders
       (snd (execute_twap_order binary64 sim_client (\<lambda>_. False) ''BTCUSDT'' ''BUY'' tenth 4
               (Some 4) ''MARKET'' None ''GTC'' (sim_system [] [] 1700000000)))
       ''TWAP_BTCUSDT_1700000000'')))) = tenth + 1 / 2 ^ 57 \<and>
   foldl (fadd binary64) 0 (map ex_quantity (executed_orders (the (active_twap_orders
       (snd (execute_twap_order binary64 sim_client (\<lambda>_. False) ''BTCUSDT'' ''BUY'' tenth 4
               (Some 4) ''MARKET'' None ''GTC'' (sim_system [] [] 1700000000)))
       ''TWAP_BTCUSDT_1700000000'')))) = tenth + 1 / 2 ^ 56 \<and>
   sum_list (map ex_quantity (executed_orders (the (active_twap_orders
       (snd (execute_twap_order binary64 sim_client (\<lambda>_. False) ''BTCUSDT'' ''BUY'' tenth 4
               (Some 4) ''MARKET'' None ''GTC'' (sim_system [] [] 1700000000)))
       ''TWAP_BTCUSDT_1700000000'')))) \<noteq> tenth"
proof -
  have pos: "0 < tenth" "(0::real) < 3602879701896397 / 2 ^ 57"
    "(0::real) < 1801439850948199 / 2 ^ 56"
    by (simp_all add: tenth_def)
  have zero: "binary64 0 = 0"
    by (simp add: binary64_def)
  note run = sim_twap_four [OF pos zero tenth_slices]
  have sum: "sum_list [3602879701896397 / 2 ^ 57, 3602879701896397 / 2 ^ 57,
      3602879701896397 / 2 ^ 57, 1801439850948199 / 2 ^ 56] = tenth + 1 / 2 ^ 57"
    by (simp add: tenth_def)
  have fsum: "(7205759403792795::real) / 2 ^ 56 = tenth + 1 / 2 ^ 56"
    by (simp add: tenth_def)
  show ?thesis
    unfolding run [THEN conjunct2, THEN conjunct1] tenth_sum sum fsum
    using run by simp
qed

section \<open>Strategy identifiers\<close>

lemma spec_id_ends_with:
  "ends_with (spec_strategy_id prefix symbol now) (''_'' @ symbol @ ''_'' @ str_int (py_int now))"
  by (simp add: ends_with_def spec_strategy_id_def)

text \<open>
  Claim C9, as amended. The identifier of a grid is \<^verbatim>\<open>GRID_{symbol}_{seconds}\<close> and the
  identifier of a TWAP order is \<^verbatim>\<open>TWAP_{symbol}_{seconds}\<close>, where the symbol is the
  validated (upper-case) symbol and the seconds are the clock reading at creation cut to
  an integer; the identifier of an OCO pair is \<^verbatim>\<open>{symbol}_{seconds}\<close>, without a family
  prefix. Each strategy is registered under its identifier.
\<close>

theorem strategy_identifiers:
  "(create_grid_strategy rnd c symbol side q lo hi n gt ps s = (Inr g, s1) \<longrightarrow>
      gres_grid_id g = spec_strategy_id ''GRID'' (upper symbol) (clock s) \<and>
      gres_grid_id g \<in> dom (active_grids s1)) \<and>
   (execute_twap_order rnd c ext symbol side q d ns ot p tif s = (Inr r, s2) \<longrightarrow>
      tr_twap_id r = spec_strategy_id ''TWAP'' (upper symbol) (clock s) \<and>
      tr_twap_id r \<in> dom (active_twap_orders s2)) \<and>
   (place_oco_order c symbol side q tp sl tif s = (Inr oco, s3) \<longrightarrow>
      or_oco_id oco = upper symbol @ ''_'' @ str_int (py_int (clock s)) \<and>
      or_oco_id oco \<in> dom (active_oco_orders s3))"
proof (intro conjI impI)
  assume "create_grid_strategy rnd c symbol side q lo hi n gt ps s = (Inr g, s1)"
  then show "gres_grid_id g = spec_strategy_id ''GRID'' (upper symbol) (clock s)"
    "gres_grid_id g \<in> dom (active_grids s1)"
    by (auto simp: create_grid_strategy_def validators spec_strategy_id_def Let_def
        split: if_splits sum.splits prod.splits option.splits)
next
  assume run: "execute_twap_order rnd c ext symbol side q d ns ot p tif s = (Inr r, s2)"
  from execute_twap_order_ok [OF run] obtain s0 twap0 where
    sl: "execute_twap_slices rnd c ext (tr_twap_id r) s0 = (Inr (), s2)"
    and reg: "active_twap_orders s0 (tr_twap_id r) = Some twap0"
    and id: "tr_twap_id r = ''TWAP_'' @ upper symbol @ ''_'' @ str_int (py_int (clock s))"
    by blast
  from id show "tr_twap_id r = spec_strategy_id ''TWAP'' (upper symbol) (clock s)"
    by (simp add: spec_strategy_id_def)
  obtain twap w where
    "loop_state (twap_iter rnd c ext (nat (num_slices twap0)) (twap0, s0)) = (twap, w)"
    by (cases "loop_state (twap_iter rnd c ext (nat (num_slices twap0)) (twap0, s0))") auto
  from execute_twap_slices_eq [OF reg this] sl show "tr_twap_id r \<in> dom (active_twap_orders s2)"
    by auto
next
  assume "place_oco_order c symbol side q tp sl tif s = (Inr oco, s3)"
  then show "or_oco_id oco = upper symbol @ ''_'' @ str_int (py_int (clock s))"
    "or_oco_id oco \<in> dom (active_oco_orders s3)"
    by (auto simp: place_oco_order_def validators create_order_def start_oco_monitoring_def
        Let_def split: if_splits sum.splits prod.splits option.splits)
qed

text \<open>A grid, a TWAP order and an OCO pair for btcusdt created at 1700000000.\<close>

theorem strategy_identifiers_witness:
  "gres_grid_id (projr (fst (create_grid_strategy binary64 sim_client ''btcusdt'' ''BUY'' 3 95 105 5
       ''LINEAR'' None (sim_system [] [] 1700000000)))) = ''GRID_BTCUSDT_1700000000'' \<and>
   tr_twap_id (projr (fst (execute_twap_order binary64 sim_client (\<lambda>_. False) ''btcusdt'' ''BUY'' 3 3
       (Some 3) ''MARKET'' None ''GTC'' (sim_system [] [] 1700000000)))) =
     ''TWAP_BTCUSDT_1700000000'' \<and>
   or_oco_id (projr (fst (place_oco_order sim_client ''btcusdt'' ''BUY'' 3 110 90 ''GTC''
       (sim_system [] [] 1700000000)))) = ''BTCUSDT_1700000000''"
proof -
  define g where "g = create_grid_strategy binary64 sim_client ''btcusdt'' ''BUY'' 3 95 105 5
       ''LINEAR'' None (sim_system [] [] 1700000000)"
  define t where "t = execute_twap_order binary64 sim_client (\<lambda>_. False) ''btcusdt'' ''BUY'' 3 3
       (Some 3) ''MARKET'' None ''GTC'' (sim_system [] [] 1700000000)"
  define oco where "oco = place_oco_order sim_client ''btcusdt'' ''BUY'' 3 110 90 ''GTC''
       (sim_system [] [] 1700000000)"
  have "\<not> isl (fst g)" "\<not> isl (fst t)" "\<not> isl (fst oco)"
    by (simp_all add: g_def t_def oco_def create_grid_strategy_def grid_price_step_def
        place_oco_order_def create_order_def twap_order_eval b64_small)
  then have ok: "g = (Inr (projr (fst g)), snd g)" "t = (Inr (projr (fst t)), snd t)"
    "oco = (Inr (projr (fst oco)), snd oco)"
    by (simp_all add: prod_eq_iff)
  from strategy_identifiers [where rnd = binary64 and c = sim_client and symbol = "''btcusdt''"
      and side = "''BUY''" and q = 3 and s = "sim_system [] [] 1700000000" and lo = 95
      and hi = 105 and n = 5 and gt = "''LINEAR''" and ps = None and g = "projr (fst g)"
      and ?s1.0 = "snd g" and ext = "\<lambda>_. False" and d = 3 and ns = "Some 3"
      and ot = "''MARKET''" and p = None and tif = "''GTC''" and r = "projr (fst t)"
      and ?s2.0 = "snd t" and tp = 110 and sl = 90 and oco = "projr (fst oco)"
      and ?s3.0 = "snd oco", folded g_def t_def oco_def] ok
  have "gres_grid_id (projr (fst g)) =
      spec_strategy_id ''GRID'' (upper ''btcusdt'') (clock (sim_system [] [] 1700000000)) \<and>
    tr_twap_id (projr (fst t)) =
      spec_strategy_id ''TWAP'' (upper ''btcusdt'') (clock (sim_system [] [] 1700000000)) \<and>
    or_oco_id (projr (fst oco)) =
      upper ''btcusdt'' @ ''_'' @ str_int (py_int (clock (sim_system [] [] 1700000000)))"
    by blast
  then show ?thesis
    unfolding g_def t_def oco_def by (simp add: spec_strategy_id_def sim_system_def)
qed

text \<open>
  The claim as stated fails for the OCO family: the identifier of a pair is the symbol and
  the timestamp, with no family prefix before them.
\<close>

theorem oco_id_counterexample:
  "or_oco_id (projr (fst (place_oco_order sim_client ''BTCUSDT'' ''BUY'' 3 110 90 ''GTC''
       (sim_system [] [] 1700000000)))) = ''BTCUSDT_1700000000'' \<and>
   \<not> ends_with
       (or_oco_id (projr (fst (place_oco_order sim_client ''BTCUSDT'' ''BUY'' 3 110 90 ''GTC''
          (sim_system [] [] 1700000000)))))
       (''_'' @ ''BTCUSDT'' @ ''_'' @ str_int (py_int 1700000000))"
  by (simp add: place_oco_order_def validators create_order_def start_oco_monitoring_def
      sim_defs ends_with_def Let_def)

end
